theory Spec2Isabelle
  imports Complex_Main
begin

section \<open>falsevisir: registration and fusion of a visible and an infrared image\<close>

text \<open>
  A shallow embedding of \<^verbatim>\<open>src/falsevisir/falsevisir.py\<close>. Samples are real numbers
  (the source computes in binary floating point; nothing below depends on rounding).
  An image is a numpy array of two or three dimensions, held as nested lists of rows:
  \<open>Arr2\<close> is a grey image (rows of samples), \<open>Arr3\<close> an image with channels (rows of
  pixels, a pixel being the list of its channel values). The nested lists of a numpy
  array are rectangular; an array without rows is the empty list, whatever its other
  dimensions were.
\<close>

subsection \<open>Arrays and errors\<close>

type_synonym img2 = "real list list"
type_synonym img3 = "real list list list"

datatype ndarray = Arr2 img2 | Arr3 img3

datatype error =
    AssertionError
  | IndexError
  | ValueError string
  | ZeroDivisionError
  | AttributeError
  | LinAlgError
  | TypeError

fun ndim :: "ndarray \<Rightarrow> nat" where
  "ndim (Arr2 g) = 2"
| "ndim (Arr3 c) = 3"

text \<open>\<^verbatim>\<open>im.shape[0]\<close> and \<^verbatim>\<open>im.shape[1]\<close>, as Python integers.\<close>

fun shape0 :: "ndarray \<Rightarrow> int" where
  "shape0 (Arr2 g) = int (length g)"
| "shape0 (Arr3 c) = int (length c)"

fun shape1 :: "ndarray \<Rightarrow> int" where
  "shape1 (Arr2 g) = (if g = [] then 0 else int (length (hd g)))"
| "shape1 (Arr3 c) = (if c = [] then 0 else int (length (hd c)))"

subsection \<open>Resizing to a common height (\<^verbatim>\<open>resize_images\<close>)\<close>

text \<open>
  \<^verbatim>\<open>new_height = new_height or min(heights)\<close>: \<^verbatim>\<open>None\<close> and \<^verbatim>\<open>0\<close> are both false in
  Python, and \<^verbatim>\<open>min\<close> of an empty list raises \<^verbatim>\<open>ValueError\<close>.
\<close>

definition new_height_or_min :: "int option \<Rightarrow> int list \<Rightarrow> error + int" where
  "new_height_or_min new_height heights =
     (case new_height of
        None \<Rightarrow>
          (if heights = [] then Inl (ValueError ''min() arg is an empty sequence'')
           else Inr (Min (set heights)))
      | Some n \<Rightarrow>
          (if n = 0 then
             (if heights = [] then Inl (ValueError ''min() arg is an empty sequence'')
              else Inr (Min (set heights)))
           else Inr n))"

text \<open>
  \<^verbatim>\<open>transform.resize\<close> is a function of scikit-image and a parameter here; what the
  source decides is the shape it asks for. \<^verbatim>\<open>//\<close> is floor division and raises
  \<^verbatim>\<open>ZeroDivisionError\<close> on an image without rows.
\<close>

definition resize_images ::
  "(ndarray \<Rightarrow> int \<times> int \<Rightarrow> 'a) \<Rightarrow> ndarray list \<Rightarrow> int option \<Rightarrow> error + 'a list" where
  "resize_images resize images new_height =
     (let heights = map shape0 images in
      case new_height_or_min new_height heights of
        Inl e \<Rightarrow> Inl e
      | Inr nh \<Rightarrow>
          (if \<exists>im \<in> set images. shape0 im = 0 then Inl ZeroDivisionError
           else Inr (map (\<lambda>im. resize im (nh, shape1 im * nh div shape0 im)) images)))"

subsection \<open>Compositing (\<^verbatim>\<open>blend_image\<close>, \<^verbatim>\<open>false_image\<close>)\<close>

text \<open>
  \<^verbatim>\<open>skimage.color.rgb2gray\<close>: the luma of an RGB pixel, with the weights of the
  library; it refuses an array whose last axis is not of size 3.
\<close>

definition rgb2gray :: "img3 \<Rightarrow> error + img2" where
  "rgb2gray rgb =
     (if list_all (list_all (\<lambda>p. length p = 3)) rgb
      then Inr (map (map (\<lambda>p. 0.2125 * p ! 0 + 0.7154 * p ! 1 + 0.0721 * p ! 2)) rgb)
      else Inl (ValueError ''the input array must have size 3 along channel_axis''))"

text \<open>
  \<^verbatim>\<open>np.dstack\<close> of three arrays of two dimensions: the three values of a position
  become the channels of a pixel; the shapes must agree.
\<close>

definition dstack3 :: "img2 \<Rightarrow> img2 \<Rightarrow> img2 \<Rightarrow> error + img3" where
  "dstack3 a b c =
     (if map length a = map length b \<and> map length b = map length c
      then Inr (map (\<lambda>(ra, rb, rc). map (\<lambda>(x, y, z). [x, y, z]) (zip ra (zip rb rc)))
                  (zip a (zip b c)))
      else Inl (ValueError ''all the input array dimensions except for the concatenation axis must match exactly''))"

text \<open>
  \<^verbatim>\<open>im[:,:,k]\<close>: an array of two dimensions has too many indices, and \<open>k\<close> must be
  a channel of the array.
\<close>

fun channel :: "ndarray \<Rightarrow> nat \<Rightarrow> error + img2" where
  "channel (Arr2 g) k = Inl IndexError"
| "channel (Arr3 c) k =
     (if list_all (list_all (\<lambda>p. k < length p)) c then Inr (map (map (\<lambda>p. p ! k)) c)
      else Inl IndexError)"

text \<open>
  Arithmetic on arrays broadcasts: two axes are compatible when they are equal or one
  of them is 1, and the axis of length 1 is read at index 0 everywhere. An array of two
  dimensions meets one of three as a single plane (a leading axis of length 1).
\<close>

definition shape3 :: "img3 \<Rightarrow> nat \<times> nat \<times> nat" where
  "shape3 a =
     (length a,
      (if a = [] then 0 else length (hd a)),
      (if a = [] \<or> hd a = [] then 0 else length (hd (hd a))))"

definition bdim :: "nat \<Rightarrow> nat \<Rightarrow> nat option" where
  "bdim m n = (if m = n then Some m else if m = 1 then Some n else if n = 1 then Some m else None)"

definition bget :: "img3 \<Rightarrow> nat \<Rightarrow> nat \<Rightarrow> nat \<Rightarrow> real" where
  "bget a r c k =
     (case shape3 a of (h, w, d) \<Rightarrow>
        a ! (if h = 1 then 0 else r) ! (if w = 1 then 0 else c) ! (if d = 1 then 0 else k))"

definition add_arrays :: "img3 \<Rightarrow> img3 \<Rightarrow> error + img3" where
  "add_arrays a b =
     (case shape3 a of (ha, wa, da) \<Rightarrow>
       (case shape3 b of (hb, wb, db) \<Rightarrow>
         (case (bdim ha hb, bdim wa wb, bdim da db) of
            (Some h, Some w, Some d) \<Rightarrow>
              Inr (map (\<lambda>r. map (\<lambda>c. map (\<lambda>k. bget a r c k + bget b r c k) [0..<d]) [0..<w])
                     [0..<h])
          | _ \<Rightarrow> Inl (ValueError ''operands could not be broadcast together''))))"

definition scale_array :: "real \<Rightarrow> img3 \<Rightarrow> img3" where
  "scale_array s a = map (map (map (\<lambda>x. s * x))) a"

fun as3 :: "ndarray \<Rightarrow> img3" where
  "as3 (Arr2 g) = [g]"
| "as3 (Arr3 c) = c"

text \<open>
  \<^verbatim>\<open>blend_image(vis, irr, weight)\<close>: a grey \<open>irr\<close> is stacked three times, then
  \<^verbatim>\<open>(1 - weight) * vis + weight * irr\<close>.
\<close>

definition blend_image :: "ndarray \<Rightarrow> ndarray \<Rightarrow> real \<Rightarrow> error + ndarray" where
  "blend_image vis irr weight =
     (case (case irr of Arr2 g \<Rightarrow> dstack3 g g g | Arr3 c \<Rightarrow> Inr c) of
        Inl e \<Rightarrow> Inl e
      | Inr irr3 \<Rightarrow>
          (case add_arrays (scale_array (1 - weight) (as3 vis)) (scale_array weight irr3) of
             Inl e \<Rightarrow> Inl e
           | Inr im \<Rightarrow> Inr (Arr3 im)))"

text \<open>
  \<^verbatim>\<open>rgb2gray(im) if im.ndim > 2 else im\<close>, the reduction \<^verbatim>\<open>false_image\<close> and
  \<^verbatim>\<open>preprocess_images\<close> both apply.
\<close>

fun to_gray :: "ndarray \<Rightarrow> error + img2" where
  "to_gray (Arr3 c) = rgb2gray c"
| "to_gray (Arr2 g) = Inr g"

text \<open>
  \<^verbatim>\<open>false_image(vis, irr)\<close>: an \<open>irr\<close> of more than two dimensions goes through
  \<^verbatim>\<open>rgb2gray\<close>, then \<^verbatim>\<open>np.dstack((irr, vis[:,:,0], vis[:,:,1]))\<close>.
\<close>

definition false_image :: "ndarray \<Rightarrow> ndarray \<Rightarrow> error + ndarray" where
  "false_image vis irr =
     (case to_gray irr of
        Inl e \<Rightarrow> Inl e
      | Inr irr1 \<Rightarrow>
          (case channel vis 0 of
             Inl e \<Rightarrow> Inl e
           | Inr v0 \<Rightarrow>
               (case channel vis 1 of
                  Inl e \<Rightarrow> Inl e
                | Inr v1 \<Rightarrow>
                    (case dstack3 irr1 v0 v1 of
                       Inl e \<Rightarrow> Inl e
                     | Inr im \<Rightarrow> Inr (Arr3 im)))))"

text \<open>
  The images the compositor is specified for: rectangular, a visible image of three
  channels, an infrared image grey or of three channels, both on the same canvas.
\<close>

definition rect2 :: "img2 \<Rightarrow> nat \<Rightarrow> nat \<Rightarrow> bool" where
  "rect2 g h w = (length g = h \<and> list_all (\<lambda>row. length row = w) g)"

definition rect3 :: "img3 \<Rightarrow> nat \<Rightarrow> nat \<Rightarrow> nat \<Rightarrow> bool" where
  "rect3 a h w d =
     (length a = h \<and> list_all (\<lambda>row. length row = w \<and> list_all (\<lambda>p. length p = d) row) a)"

fun on_canvas :: "ndarray \<Rightarrow> nat \<Rightarrow> nat \<Rightarrow> bool" where
  "on_canvas (Arr2 g) h w = rect2 g h w"
| "on_canvas (Arr3 c) h w = rect3 c h w 3"

subsection \<open>Projective transforms (\<^verbatim>\<open>skimage.transform\<close>)\<close>

text \<open>
  A transform is its homogeneous matrix \<^verbatim>\<open>params\<close>, three rows of three entries.
  \<^verbatim>\<open>a + b\<close> applies \<open>a\<close> first: its matrix is \<^verbatim>\<open>b.params @ a.params\<close>.
  \<^verbatim>\<open>.inverse\<close> is \<^verbatim>\<open>np.linalg.inv\<close> of the matrix, which raises on a singular one.
\<close>

type_synonym 'a mat3 = "('a \<times> 'a \<times> 'a) \<times> ('a \<times> 'a \<times> 'a) \<times> ('a \<times> 'a \<times> 'a)"

fun mat_mul :: "real mat3 \<Rightarrow> real mat3 \<Rightarrow> real mat3" where
  "mat_mul ((a00, a01, a02), (a10, a11, a12), (a20, a21, a22))
           ((b00, b01, b02), (b10, b11, b12), (b20, b21, b22)) =
     ((a00 * b00 + a01 * b10 + a02 * b20,
       a00 * b01 + a01 * b11 + a02 * b21,
       a00 * b02 + a01 * b12 + a02 * b22),
      (a10 * b00 + a11 * b10 + a12 * b20,
       a10 * b01 + a11 * b11 + a12 * b21,
       a10 * b02 + a11 * b12 + a12 * b22),
      (a20 * b00 + a21 * b10 + a22 * b20,
       a20 * b01 + a21 * b11 + a22 * b21,
       a20 * b02 + a21 * b12 + a22 * b22))"

fun det3 :: "real mat3 \<Rightarrow> real" where
  "det3 ((a, b, c), (d, e, f), (g, h, i)) =
     a * (e * i - f * h) - b * (d * i - f * g) + c * (d * h - e * g)"

fun mat_inv :: "real mat3 \<Rightarrow> error + real mat3" where
  "mat_inv ((a, b, c), (d, e, f), (g, h, i)) =
     (let dt = det3 ((a, b, c), (d, e, f), (g, h, i)) in
      if dt = 0 then Inl LinAlgError
      else Inr (((e * i - f * h) / dt, (c * h - b * i) / dt, (b * f - c * e) / dt),
                ((f * g - d * i) / dt, (a * i - c * g) / dt, (c * d - a * f) / dt),
                ((d * h - e * g) / dt, (b * g - a * h) / dt, (a * e - b * d) / dt)))"

definition tf_add :: "real mat3 \<Rightarrow> real mat3 \<Rightarrow> real mat3" where
  "tf_add a b = mat_mul b a"

text \<open>\<^verbatim>\<open>SimilarityTransform(scale=s)\<close> and \<^verbatim>\<open>SimilarityTransform(translation=t)\<close>.\<close>

definition similarity_scale :: "real \<Rightarrow> real mat3" where
  "similarity_scale s = ((s, 0, 0), (0, s, 0), (0, 0, 1))"

definition similarity_translation :: "real \<times> real \<Rightarrow> real mat3" where
  "similarity_translation t = ((1, 0, fst t), (0, 1, snd t), (0, 0, 1))"

text \<open>
  Calling a transform on coordinates \<open>(x, y)\<close>: the homogeneous product, divided by its
  last entry; the library replaces a last entry that is exactly zero by the machine
  epsilon of a double before dividing.
\<close>

definition float_eps :: real where
  "float_eps = 1 / 2 ^ 52"

fun apply_mat :: "real mat3 \<Rightarrow> real \<times> real \<Rightarrow> real \<times> real" where
  "apply_mat ((a, b, c), (d, e, f), (g, h, i)) (x, y) =
     (let z0 = g * x + h * y + i;
          z = (if z0 = 0 then float_eps else z0)
      in ((a * x + b * y + c) / z, (d * x + e * y + f) / z))"

subsection \<open>Resampling (\<^verbatim>\<open>skimage.transform.warp\<close>)\<close>

text \<open>
  \<^verbatim>\<open>warp(image, inverse_map, output_shape, cval)\<close> with its defaults (linear
  interpolation, mode \<^verbatim>\<open>constant\<close>): the output pixel at row \<open>tfr\<close> and column
  \<open>tfc\<close> is the input interpolated at the point the inverse matrix sends \<open>(tfc, tfr)\<close>
  to, every sample outside the input reading \<open>cval\<close>. An image with channels is warped
  channel by channel. A point whose homogeneous divisor is zero has no real coordinates;
  the model reads \<open>cval\<close> there. The library then clips to the range of the input
  extended by \<open>cval\<close>, which leaves every interpolated value as it is.
\<close>

definition get_pixel2d ::
  "(nat \<Rightarrow> nat \<Rightarrow> real) \<Rightarrow> int \<Rightarrow> int \<Rightarrow> int \<Rightarrow> int \<Rightarrow> real \<Rightarrow> real" where
  "get_pixel2d img rows cols r c cval =
     (if r < 0 \<or> r \<ge> rows \<or> c < 0 \<or> c \<ge> cols then cval else img (nat r) (nat c))"

definition bilinear_interpolation ::
  "(nat \<Rightarrow> nat \<Rightarrow> real) \<Rightarrow> int \<Rightarrow> int \<Rightarrow> real \<Rightarrow> real \<Rightarrow> real \<Rightarrow> real" where
  "bilinear_interpolation img rows cols r c cval =
     (let minr = \<lfloor>r\<rfloor>; minc = \<lfloor>c\<rfloor>; maxr = \<lceil>r\<rceil>; maxc = \<lceil>c\<rceil>;
          dr = r - of_int minr; dc = c - of_int minc;
          top = (1 - dc) * get_pixel2d img rows cols minr minc cval
                + dc * get_pixel2d img rows cols minr maxc cval;
          bottom = (1 - dc) * get_pixel2d img rows cols maxr minc cval
                   + dc * get_pixel2d img rows cols maxr maxc cval
      in (1 - dr) * top + dr * bottom)"

fun transform_projective :: "real mat3 \<Rightarrow> real \<times> real \<Rightarrow> (real \<times> real) option" where
  "transform_projective ((a, b, c), (d, e, f), (g, h, i)) (x, y) =
     (let z = g * x + h * y + i in
      if z = 0 then None else Some ((a * x + b * y + c) / z, (d * x + e * y + f) / z))"

definition sample_at ::
  "(nat \<Rightarrow> nat \<Rightarrow> real) \<Rightarrow> int \<Rightarrow> int \<Rightarrow> real mat3 \<Rightarrow> nat \<Rightarrow> nat \<Rightarrow> real \<Rightarrow> real" where
  "sample_at img rows cols M tfr tfc cval =
     (case transform_projective M (real tfc, real tfr) of
        None \<Rightarrow> cval
      | Some (c, r) \<Rightarrow> bilinear_interpolation img rows cols r c cval)"

fun sk_warp :: "ndarray \<Rightarrow> real mat3 \<Rightarrow> nat \<times> nat \<Rightarrow> real \<Rightarrow> ndarray" where
  "sk_warp (Arr2 g) M (out_r, out_c) cval =
     Arr2 (map (\<lambda>tfr. map (\<lambda>tfc.
             sample_at (\<lambda>r c. g ! r ! c) (shape0 (Arr2 g)) (shape1 (Arr2 g)) M tfr tfc cval)
           [0..<out_c]) [0..<out_r])"
| "sk_warp (Arr3 a) M (out_r, out_c) cval =
     Arr3 (map (\<lambda>tfr. map (\<lambda>tfc. map (\<lambda>k.
             sample_at (\<lambda>r c. a ! r ! c ! k) (shape0 (Arr3 a)) (shape1 (Arr3 a)) M tfr tfc cval)
           [0..<snd (snd (shape3 a))]) [0..<out_c]) [0..<out_r])"

subsection \<open>The shared canvas (\<^verbatim>\<open>warp_image\<close>)\<close>

text \<open>
  \<^verbatim>\<open>r, c = images[0].shape[:2]\<close>; the corners are \<open>(x, y)\<close> pairs. The names below are
  the local variables of the source.
\<close>

definition corners :: "ndarray \<Rightarrow> (real \<times> real) list" where
  "corners im0 =
     (let r = real_of_int (shape0 im0); c = real_of_int (shape1 im0)
      in [(0, 0), (0, r), (c, 0), (c, r)])"

definition all_corners :: "ndarray \<Rightarrow> real mat3 \<Rightarrow> (real \<times> real) list" where
  "all_corners im0 model_robust = map (apply_mat model_robust) (corners im0) @ corners im0"

definition corner_min :: "ndarray \<Rightarrow> real mat3 \<Rightarrow> real \<times> real" where
  "corner_min im0 model_robust =
     (Min (set (map fst (all_corners im0 model_robust))),
      Min (set (map snd (all_corners im0 model_robust))))"

definition corner_max :: "ndarray \<Rightarrow> real mat3 \<Rightarrow> real \<times> real" where
  "corner_max im0 model_robust =
     (Max (set (map fst (all_corners im0 model_robust))),
      Max (set (map snd (all_corners im0 model_robust))))"

text \<open>\<^verbatim>\<open>np.ceil((corner_max - corner_min)[::-1])\<close>: rows first, then columns.\<close>

definition output_shape :: "ndarray \<Rightarrow> real mat3 \<Rightarrow> nat \<times> nat" where
  "output_shape im0 model_robust =
     (nat \<lceil>snd (corner_max im0 model_robust) - snd (corner_min im0 model_robust)\<rceil>,
      nat \<lceil>fst (corner_max im0 model_robust) - fst (corner_min im0 model_robust)\<rceil>)"

definition offset :: "ndarray \<Rightarrow> real mat3 \<Rightarrow> real mat3" where
  "offset im0 model_robust =
     similarity_translation
       (- fst (corner_min im0 model_robust), - snd (corner_min im0 model_robust))"

definition warp_image :: "ndarray \<times> ndarray \<Rightarrow> real mat3 \<Rightarrow> error + ndarray \<times> ndarray" where
  "warp_image images model_robust =
     (case mat_inv (offset (fst images) model_robust) of
        Inl e \<Rightarrow> Inl e
      | Inr offset_inverse \<Rightarrow>
          (let warp_0 = sk_warp (fst images) offset_inverse
                          (output_shape (fst images) model_robust) 0
           in case mat_inv (tf_add model_robust (offset (fst images) model_robust)) of
                Inl e \<Rightarrow> Inl e
              | Inr full_inverse \<Rightarrow>
                  Inr (warp_0,
                       sk_warp (snd images) full_inverse
                         (output_shape (fst images) model_robust) 0)))"

subsection \<open>Configuration (\<^verbatim>\<open>CFG\<close>)\<close>

definition CFG_max_distance :: real where "CFG_max_distance = 200"
definition CFG_min_distance :: int where "CFG_min_distance = 1"
definition CFG_threshold_rel :: real where "CFG_threshold_rel = 1 / 10 ^ 7"
definition CFG_patch_size :: int where "CFG_patch_size = 59"
definition CFG_method :: string where "CFG_method = ''HARRIS''"
definition CFG_min_samples :: int where "CFG_min_samples = 10"
definition CFG_residual_threshold :: real where "CFG_residual_threshold = 1"
definition CFG_max_trials :: int where "CFG_max_trials = 800"
definition CFG_downsize :: int where "CFG_downsize = 500"
definition CFG_equalize :: bool where "CFG_equalize = False"
definition CFG_normalize :: bool where "CFG_normalize = True"
definition CFG_edge :: bool where "CFG_edge = False"

definition CFG_model_robust_param_limits :: "real mat3 \<times> real mat3" where
  "CFG_model_robust_param_limits =
     (((- 10, - 1, - 100), (- 1, - 2, - 100), (- 0.1, - 0.02, 0)),
      ((10, 1, 100), (1, 2, 100), (0.1, 0.02, 2)))"

subsection \<open>Validation of the fitted model (\<^verbatim>\<open>transformation_valid\<close>)\<close>

text \<open>
  The entries of a fitted matrix are doubles and may be infinite or not a number; every
  comparison with a NaN is false.
\<close>

datatype fl = Fin real | PInf | NInf | NaN

fun isnan :: "fl \<Rightarrow> bool" where
  "isnan NaN = True"
| "isnan _ = False"

fun fl_gt :: "fl \<Rightarrow> real \<Rightarrow> bool" where
  "fl_gt (Fin x) b = (x > b)"
| "fl_gt PInf b = True"
| "fl_gt NInf b = False"
| "fl_gt NaN b = False"

fun fl_lt :: "fl \<Rightarrow> real \<Rightarrow> bool" where
  "fl_lt (Fin x) b = (x < b)"
| "fl_lt PInf b = False"
| "fl_lt NInf b = True"
| "fl_lt NaN b = False"

fun mat_list :: "'a mat3 \<Rightarrow> 'a list" where
  "mat_list ((a, b, c), (d, e, f), (g, h, i)) = [a, b, c, d, e, f, g, h, i]"

text \<open>\<^verbatim>\<open>m[i][j]\<close> for \<open>i, j < 3\<close>.\<close>

definition entry :: "'a mat3 \<Rightarrow> nat \<Rightarrow> nat \<Rightarrow> 'a" where
  "entry m i j = mat_list m ! (3 * i + j)"

definition transformation_valid :: "fl mat3 \<Rightarrow> bool" where
  "transformation_valid params =
     (if list_ex isnan (mat_list params) then False
      else (case CFG_model_robust_param_limits of (mmin, mmax) \<Rightarrow>
              list_all2 fl_gt (mat_list params) (mat_list mmin)
              \<and> list_all2 fl_lt (mat_list params) (mat_list mmax)))"

text \<open>The real matrix of a model whose entries are all finite.\<close>

fun fl_val :: "fl \<Rightarrow> real" where
  "fl_val (Fin x) = x"
| "fl_val _ = 0"

fun mat_map :: "('a \<Rightarrow> 'b) \<Rightarrow> 'a mat3 \<Rightarrow> 'b mat3" where
  "mat_map f ((a, b, c), (d, e, f'), (g, h, i)) =
     ((f a, f b, f c), (f d, f e, f f'), (f g, f h, f i))"

subsection \<open>The functions of scikit-image the pipeline calls\<close>

text \<open>
  Resizing, the intensity filters, the detectors, the matcher and RANSAC are functions of
  scikit-image, not of this repository: they are parameters of the model, collected in a
  record. A keypoint is a \<open>(row, col)\<close> pair, a descriptor a vector of bits.
  \<^verbatim>\<open>brief_extract\<close> gives the attributes \<^verbatim>\<open>mask\<close> and \<^verbatim>\<open>descriptors\<close> the
  \<^verbatim>\<open>BRIEF\<close> object holds after \<^verbatim>\<open>extract\<close>, \<^verbatim>\<open>orb_detect_and_extract\<close> the
  attributes \<^verbatim>\<open>keypoints\<close> and \<^verbatim>\<open>descriptors\<close> of the \<^verbatim>\<open>ORB\<close> object; each call
  replaces them. \<^verbatim>\<open>ransac\<close> may raise, and may return \<^verbatim>\<open>None\<close> for the model.
\<close>

type_synonym keypoint = "real \<times> real"
type_synonym descriptor = "bool list"

record skimage =
  resize2 :: "img2 \<Rightarrow> int \<times> int \<Rightarrow> img2"
  resize3 :: "img3 \<Rightarrow> int \<times> int \<Rightarrow> img3"
  rescale_intensity :: "img2 \<Rightarrow> img2"
  equalize_hist :: "img2 \<Rightarrow> img2"
  canny :: "img2 \<Rightarrow> real \<Rightarrow> real \<Rightarrow> real \<Rightarrow> img2"
  corner_harris :: "img2 \<Rightarrow> img2"
  corner_peaks :: "img2 \<Rightarrow> int \<Rightarrow> real \<Rightarrow> keypoint list"
  brief_extract :: "int \<Rightarrow> string \<Rightarrow> img2 \<Rightarrow> keypoint list \<Rightarrow> bool list \<times> descriptor list"
  orb_detect_and_extract :: "int \<Rightarrow> real \<Rightarrow> img2 \<Rightarrow> keypoint list \<times> descriptor list"
  match_descriptors :: "descriptor list \<Rightarrow> descriptor list \<Rightarrow> bool \<Rightarrow> real \<Rightarrow> (nat \<times> nat) list"
  ransac :: "keypoint list \<times> keypoint list \<Rightarrow> int \<Rightarrow> real \<Rightarrow> int
             \<Rightarrow> error + (fl mat3 option \<times> bool list option)"

text \<open>\<^verbatim>\<open>transform.resize\<close> keeps the number of dimensions of its input.\<close>

fun sk_resize :: "skimage \<Rightarrow> ndarray \<Rightarrow> int \<times> int \<Rightarrow> ndarray" where
  "sk_resize L (Arr2 g) shp = Arr2 (resize2 L g shp)"
| "sk_resize L (Arr3 c) shp = Arr3 (resize3 L c shp)"

subsection \<open>Preprocessing (\<^verbatim>\<open>preprocess_images\<close>)\<close>

text \<open>A list comprehension whose element may raise: the first error wins.\<close>

fun collect :: "(error + 'a) list \<Rightarrow> error + 'a list" where
  "collect [] = Inr []"
| "collect (x # xs) =
     (case x of
        Inl e \<Rightarrow> Inl e
      | Inr v \<Rightarrow> (case collect xs of Inl e \<Rightarrow> Inl e | Inr vs \<Rightarrow> Inr (v # vs)))"

definition preprocess_images :: "skimage \<Rightarrow> ndarray list \<Rightarrow> error + img2 list" where
  "preprocess_images L images =
     (case collect (map to_gray images) of
        Inl e \<Rightarrow> Inl e
      | Inr images_gray \<Rightarrow>
          (let images_gray1 =
                 (if CFG_normalize then map (rescale_intensity L) images_gray else images_gray);
               images_gray2 =
                 (if CFG_equalize then map (equalize_hist L) images_gray1 else images_gray1);
               images_gray3 =
                 (if CFG_edge then map (\<lambda>im. canny L im 2 0.05 0.1) images_gray2
                  else images_gray2)
           in Inr images_gray3))"

subsection \<open>Feature extraction (\<^verbatim>\<open>extract\<close>)\<close>

text \<open>
  \<^verbatim>\<open>keypoints1[brief.mask]\<close>: indexing with a boolean mask keeps the entries whose flag
  is set; the mask must be as long as the array. The function \<^verbatim>\<open>extract\<close> of the
  source is \<open>extract_features\<close> here (\<open>extract\<close> is a reserved word of the
  prover).
\<close>

definition mask_index :: "'a list \<Rightarrow> bool list \<Rightarrow> error + 'a list" where
  "mask_index xs flags =
     (if length flags = length xs then Inr (map fst (filter snd (zip xs flags)))
      else Inl IndexError)"

definition extract_features ::
  "skimage \<Rightarrow> img2 list \<Rightarrow> string \<Rightarrow> int \<Rightarrow> int \<Rightarrow> real
   \<Rightarrow> error + (keypoint list list \<times> descriptor list list)" where
  "extract_features L images method patch_size min_distance threshold_rel =
     (if method = ''ORB'' then
        Inr (map (\<lambda>im. fst (orb_detect_and_extract L 1000 0.02 im)) images,
             map (\<lambda>im. snd (orb_detect_and_extract L 1000 0.02 im)) images)
      else if method = ''HARRIS'' then
        (case collect
                (map (\<lambda>im.
                   (let keypoints1 = corner_peaks L (corner_harris L im) min_distance threshold_rel;
                        brief = brief_extract L patch_size ''uniform'' im keypoints1
                    in case mask_index keypoints1 (fst brief) of
                         Inl e \<Rightarrow> Inl e
                       | Inr kept \<Rightarrow> Inr (kept, snd brief)))
                 images) of
           Inl e \<Rightarrow> Inl e
         | Inr found \<Rightarrow> Inr (map fst found, map snd found))
      else Inr ([], []))"

subsection \<open>The registration pipeline (\<^verbatim>\<open>warp_images\<close>)\<close>

text \<open>
  \<^verbatim>\<open>warp_images\<close> is written in stages, each the lines of the source it names.
  Lines 255 to 259: the assertion on \<open>vis\<close>, and \<^verbatim>\<open>irr = irr[:,:,0]\<close> for an \<open>irr\<close> of
  more than two dimensions.
\<close>

definition warp_images_select :: "ndarray \<Rightarrow> ndarray \<Rightarrow> error + ndarray \<times> ndarray" where
  "warp_images_select vis irr =
     (if ndim vis \<noteq> 3 then Inl AssertionError
      else if ndim irr > 2 then
        (case channel irr 0 of Inl e \<Rightarrow> Inl e | Inr g \<Rightarrow> Inr (vis, Arr2 g))
      else Inr (vis, irr))"

text \<open>Lines 261 to 265: the small copies for matching, resized and preprocessed.\<close>

definition warp_images_gray :: "skimage \<Rightarrow> ndarray \<times> ndarray \<Rightarrow> error + img2 list" where
  "warp_images_gray L images =
     (case resize_images (sk_resize L) [fst images, snd images] (Some CFG_downsize) of
        Inl e \<Rightarrow> Inl e
      | Inr images_small \<Rightarrow> preprocess_images L images_small)"

text \<open>
  \<^verbatim>\<open>keypoints[1][matches[:, 1]][:, ::-1]\<close>: the keypoints at the matched indices, each
  turned from \<open>(row, col)\<close> to \<open>(x, y)\<close>.
\<close>

definition take_keys :: "keypoint list \<Rightarrow> nat list \<Rightarrow> error + keypoint list" where
  "take_keys kps idx =
     (if list_all (\<lambda>i. i < length kps) idx then Inr (map (\<lambda>i. prod.swap (kps ! i)) idx)
      else Inl IndexError)"

text \<open>Lines 267 to 282: keypoints, matches and the matched coordinates.\<close>

definition warp_images_keys ::
  "skimage \<Rightarrow> img2 list \<Rightarrow> error + keypoint list \<times> keypoint list" where
  "warp_images_keys L images_gray =
     (case extract_features L images_gray CFG_method CFG_patch_size CFG_min_distance CFG_threshold_rel of
        Inl e \<Rightarrow> Inl e
      | Inr (keypoints, descriptors) \<Rightarrow>
          (if length keypoints < 2 then Inl IndexError
           else if length descriptors \<noteq> 2 then Inl TypeError
           else
             (let matches = match_descriptors L (descriptors ! 0) (descriptors ! 1) True
                              CFG_max_distance
              in case take_keys (keypoints ! 1) (map snd matches) of
                   Inl e \<Rightarrow> Inl e
                 | Inr src_keys \<Rightarrow>
                     (case take_keys (keypoints ! 0) (map fst matches) of
                        Inl e \<Rightarrow> Inl e
                      | Inr dst_keys \<Rightarrow> Inr (src_keys, dst_keys)))))"

text \<open>
  Lines 284 to 293: the robust fit and its validation. Line 291 reads
  \<^verbatim>\<open>model_robust.params\<close>, an \<^verbatim>\<open>AttributeError\<close> when the fit returned \<^verbatim>\<open>None\<close>.
\<close>

definition warp_images_model ::
  "skimage \<Rightarrow> keypoint list \<times> keypoint list \<Rightarrow> error + fl mat3" where
  "warp_images_model L keys =
     (case ransac L keys CFG_min_samples CFG_residual_threshold CFG_max_trials of
        Inl e \<Rightarrow> Inl e
      | Inr (model_robust, inliers) \<Rightarrow>
          (case model_robust of
             None \<Rightarrow> Inl AttributeError
           | Some m \<Rightarrow>
               (if \<not> transformation_valid m
                then Inl (ValueError ''Transformation failed, not enough similar features?'')
                else Inr m)))"

text \<open>
  Lines 299 to 305: the model, fitted on the small copies, is rescaled and applied to
  the images selected at the start. \<^verbatim>\<open>orig_height\<close> is not zero here (resizing has
  divided by it).
\<close>

definition warp_images_apply ::
  "ndarray \<times> ndarray \<Rightarrow> fl mat3 \<Rightarrow> error + ndarray \<times> ndarray" where
  "warp_images_apply images model_robust =
     (let orig_height = shape0 (fst images) in
      if orig_height = 0 then Inl ZeroDivisionError
      else
        (let downsize_scale = real_of_int CFG_downsize / real_of_int orig_height;
             S_down = similarity_scale downsize_scale;
             S_up = similarity_scale (1 / downsize_scale);
             full_tf = tf_add (tf_add S_down (mat_map fl_val model_robust)) S_up
         in warp_image images full_tf))"

definition warp_images :: "skimage \<Rightarrow> ndarray \<Rightarrow> ndarray \<Rightarrow> error + ndarray \<times> ndarray" where
  "warp_images L vis irr =
     (case warp_images_select vis irr of
        Inl e \<Rightarrow> Inl e
      | Inr images \<Rightarrow>
          (case warp_images_gray L images of
             Inl e \<Rightarrow> Inl e
           | Inr images_gray \<Rightarrow>
               (case warp_images_keys L images_gray of
                  Inl e \<Rightarrow> Inl e
                | Inr keys \<Rightarrow>
                    (case warp_images_model L keys of
                       Inl e \<Rightarrow> Inl e
                     | Inr model_robust \<Rightarrow> warp_images_apply images model_robust))))"

subsection \<open>One pair of images (\<^verbatim>\<open>process_pair\<close>)\<close>

text \<open>
  \<^verbatim>\<open>process_pair\<close> from the decoded images on; showing and saving the four results are
  left to the caller. \<^verbatim>\<open>info\<close> takes the minimum and maximum of its image, which
  raises on an array without samples.
\<close>

fun array_size :: "ndarray \<Rightarrow> nat" where
  "array_size (Arr2 g) = sum_list (map length g)"
| "array_size (Arr3 c) = sum_list (map (\<lambda>row. sum_list (map length row)) c)"

definition info :: "ndarray \<Rightarrow> error + unit" where
  "info im =
     (if array_size im = 0
      then Inl (ValueError ''zero-size array to reduction operation minimum which has no identity'')
      else Inr ())"

definition process_pair ::
  "skimage \<Rightarrow> ndarray \<Rightarrow> ndarray \<Rightarrow> error + ndarray \<times> ndarray \<times> ndarray \<times> ndarray" where
  "process_pair L vi_image ir_image =
     (case resize_images (sk_resize L) [vi_image, ir_image] None of
        Inl e \<Rightarrow> Inl e
      | Inr resized \<Rightarrow>
          (case warp_images L (resized ! 0) (resized ! 1) of
             Inl e \<Rightarrow> Inl e
           | Inr (vi, ir) \<Rightarrow>
               (case info ir of
                  Inl e \<Rightarrow> Inl e
                | Inr _ \<Rightarrow>
                    (case blend_image vi ir 0.5 of
                       Inl e \<Rightarrow> Inl e
                     | Inr blend_im \<Rightarrow>
                         (case info blend_im of
                            Inl e \<Rightarrow> Inl e
                          | Inr _ \<Rightarrow>
                              (case false_image vi ir of
                                 Inl e \<Rightarrow> Inl e
                               | Inr false_im \<Rightarrow>
                                   (case info false_im of
                                      Inl e \<Rightarrow> Inl e
                                    | Inr _ \<Rightarrow> Inr (vi, ir, blend_im, false_im))))))))"

subsection \<open>Predicates the properties are stated with\<close>




subsection \<open>Example inputs\<close>

text \<open>
  Two images of 500 rows and 60 columns, so that resizing to the working height of 500
  leaves them as they are, and stand-ins for the library on them: the detector finds
  the same fourteen corners in both images, BRIEF drops the two that are closer to the
  border than half a patch and describes the others, the matcher pairs equal indices,
  and the robust fit refuses fewer pairs than \<open>min_samples\<close> and returns the model it
  is given otherwise. The intensity filters leave an image that spans \<open>[0, 1]\<close> as it
  is.
\<close>

definition demo_vis :: ndarray where
  "demo_vis = Arr3 (replicate 499 (replicate 60 [0, 0, 0]) @ [replicate 60 [1, 1, 1]])"

definition demo_irr :: ndarray where
  "demo_irr = Arr3 (replicate 499 (replicate 60 [0, 1, 0]) @ [replicate 60 [1, 0, 0]])"

definition demo_grey :: img2 where
  "demo_grey = replicate 499 (replicate 60 0) @ [replicate 60 1]"

definition demo_peaks :: "keypoint list" where
  "demo_peaks =
     [(5, 30), (40, 30), (75, 30), (110, 30), (145, 30), (180, 30), (215, 30), (250, 30),
      (285, 30), (320, 30), (355, 30), (390, 30), (425, 30), (490, 30)]"

definition demo_brief ::
  "int \<Rightarrow> string \<Rightarrow> img2 \<Rightarrow> keypoint list \<Rightarrow> bool list \<times> descriptor list" where
  "demo_brief patch_size mode im kps =
     (let d = real_of_int (patch_size div 2);
          inside = (\<lambda>kp. d - 1 < fst kp \<and> fst kp < real_of_int (shape0 (Arr2 im)) - d + 1
                        \<and> d - 1 < snd kp \<and> snd kp < real_of_int (shape1 (Arr2 im)) - d + 1)
      in (map inside kps, map (\<lambda>kp. [True]) (filter inside kps)))"

definition demo_ransac ::
  "fl mat3 \<Rightarrow> keypoint list \<times> keypoint list \<Rightarrow> int \<Rightarrow> real \<Rightarrow> int
   \<Rightarrow> error + (fl mat3 option \<times> bool list option)" where
  "demo_ransac m keys min_samples residual_threshold max_trials =
     (if int (length (fst keys)) < min_samples
      then Inl (ValueError ''min_samples must be in range (0, N]'')
      else Inr (Some m, Some (map (\<lambda>k. True) (fst keys))))"

definition demo_lib :: "fl mat3 \<Rightarrow> skimage" where
  "demo_lib m =
     \<lparr> resize2 = (\<lambda>im shp. im),
       resize3 = (\<lambda>im shp. im),
       rescale_intensity = (\<lambda>im. im),
       equalize_hist = (\<lambda>im. im),
       canny = (\<lambda>im sigma low high. im),
       corner_harris = (\<lambda>im. im),
       corner_peaks = (\<lambda>im min_distance threshold_rel. demo_peaks),
       brief_extract = demo_brief,
       orb_detect_and_extract = (\<lambda>n t im. (demo_peaks, map (\<lambda>kp. [True]) demo_peaks)),
       match_descriptors = (\<lambda>da db cross_check max_distance.
                              map (\<lambda>i. (i, i)) [0..<min (length da) (length db)]),
       ransac = demo_ransac m \<rparr>"

definition identity_model :: "fl mat3" where
  "identity_model = ((Fin 1, Fin 0, Fin 0), (Fin 0, Fin 1, Fin 0), (Fin 0, Fin 0, Fin 1))"

definition demo_xy :: "keypoint list" where
  "demo_xy = [(30, 40), (30, 75), (30, 110), (30, 145), (30, 180), (30, 215), (30, 250),
      (30, 285), (30, 320), (30, 355), (30, 390), (30, 425)]"

text \<open>A model whose perspective entry \<open>[2][0]\<close> is 5, far beyond its limit of 0.1.\<close>

definition perspective_model :: "fl mat3" where
  "perspective_model = ((Fin 1, Fin 0, Fin 0), (Fin 0, Fin 1, Fin 0), (Fin 5, Fin 0, Fin 1))"


section \<open>Properties\<close>

subsection \<open>Resizing\<close>

text \<open>
  C6, as the code has it. \<^verbatim>\<open>resize_images\<close> asks the resampler, for every image, for
  the new height and for the width \<open>\<lfloor>orig_width * new_height / orig_height\<rfloor>\<close>: the
  aspect-preserving width rounded down (floor division), not rounded to the nearest
  integer. It returns only if no image has height 0.
\<close>

theorem resize_images_floor_width:
  assumes "resize_images resize images new_height = Inr out"
  shows "\<exists>nh. new_height_or_min new_height (map shape0 images) = Inr nh
           \<and> length out = length images
           \<and> (\<forall>i<length images.
                 shape0 (images ! i) \<noteq> 0
                 \<and> out ! i = resize (images ! i)
                     (nh, \<lfloor>real_of_int (shape1 (images ! i)) * real_of_int nh
                           / real_of_int (shape0 (images ! i))\<rfloor>))"
proof -
  from assms obtain nh where nh: "new_height_or_min new_height (map shape0 images) = Inr nh"
    by (auto simp: resize_images_def Let_def split: sum.splits)
  from assms nh have nz: "\<forall>im\<in>set images. shape0 im \<noteq> 0"
    by (auto simp: resize_images_def Let_def split: if_splits)
  from assms nh nz have out: "out = map (\<lambda>im. resize im (nh, shape1 im * nh div shape0 im)) images"
    by (auto simp: resize_images_def Let_def split: if_splits)
  have fl: "\<lfloor>real_of_int a * real_of_int b / real_of_int c\<rfloor> = a * b div c" for a b c :: int
    using floor_divide_of_int_eq[of "a * b" c, where ?'a = real] by simp
  show ?thesis using nh nz out by (auto simp: fl)
qed

text \<open>
  The theorem at two images of 4 by 5 and 1 by 1 and the height 3, the resampler replaced
  by the shape it is asked for.
\<close>

theorem resize_images_floor_width_witness:
  "resize_images (\<lambda>im shp. shp) [Arr2 (replicate 4 (replicate 5 0)), Arr3 [[[0, 0, 0]]]] (Some 3)
     = Inr [(3, 3), (3, 3)]
   \<and> new_height_or_min (Some 3) [4, 1] = Inr 3"
proof -
  have h: "resize_images (\<lambda>im shp. shp)
             [Arr2 (replicate 4 (replicate 5 0)), Arr3 [[[0, 0, 0]]]] (Some 3)
           = Inr [(3, 3), (3, 3)]"
    by (simp add: resize_images_def new_height_or_min_def)
  from resize_images_floor_width[OF h] show ?thesis
    using h by (simp add: new_height_or_min_def)
qed

text \<open>
  C6 as the spec words it fails: an image of 4 rows and 5 columns resized to the height 3
  gets the width \<open>5 * 3 // 4 = 3\<close>, and \<open>round (5 * 3 / 4) = round 3.75 = 4\<close>.
\<close>

theorem resize_images_round_counterexample:
  "resize_images (\<lambda>im shp. shp) [Arr2 (replicate 4 (replicate 5 0))] (Some 3) = Inr [(3, 3)]
   \<and> round ((5::real) * 3 / 4) = (4::int)"
  by (simp add: resize_images_def new_height_or_min_def round_def)

subsection \<open>The assertion of \<^verbatim>\<open>warp_images\<close>\<close>

text \<open>
  C9. \<^verbatim>\<open>warp_images\<close> called with a visible image of two dimensions fails its
  assertion, whatever the infrared image and the library do, before anything else is
  computed.
\<close>

theorem warp_images_asserts_rgb:
  "warp_images L (Arr2 g) irr = Inl AssertionError"
  by (simp add: warp_images_def warp_images_select_def)


subsection \<open>The example run, stage by stage\<close>

lemma demo_select:
  "warp_images_select demo_vis demo_irr = Inr (demo_vis, Arr2 demo_grey)"
  by (simp add: warp_images_select_def demo_vis_def demo_irr_def demo_grey_def list_all_iff)

lemma rgb2gray_demo_vis:
  "rgb2gray (replicate 499 (replicate 60 [0, 0, 0]) @ [replicate 60 [1, 1, 1]]) = Inr demo_grey"
  by (simp add: rgb2gray_def demo_grey_def list_all_iff)

lemma demo_gray:
  "warp_images_gray (demo_lib m) (demo_vis, Arr2 demo_grey) = Inr [demo_grey, demo_grey]"
  by (simp add: warp_images_gray_def resize_images_def new_height_or_min_def CFG_downsize_def
      demo_lib_def preprocess_images_def CFG_normalize_def CFG_equalize_def CFG_edge_def
      demo_vis_def rgb2gray_demo_vis)
     (simp add: demo_grey_def)

lemma demo_brief_peaks:
  "demo_brief 59 ''uniform'' demo_grey demo_peaks
   = ([False, True, True, True, True, True, True, True, True, True, True, True, True, False],
      replicate 12 [True])"
  by (simp add: demo_brief_def demo_peaks_def demo_grey_def eval_nat_numeral)

lemma demo_extract:
  "extract_features (demo_lib m) [demo_grey, demo_grey] ''HARRIS'' 59 1 t
   = Inr ([map prod.swap demo_xy, map prod.swap demo_xy],
          [replicate 12 [True], replicate 12 [True]])"
  apply (simp add: extract_features_def demo_lib_def demo_brief_peaks Let_def mask_index_def)
  apply (simp add: demo_peaks_def demo_xy_def)
  done

lemma demo_keys:
  "warp_images_keys (demo_lib m) [demo_grey, demo_grey] = Inr (demo_xy, demo_xy)"
  apply (simp add: warp_images_keys_def CFG_method_def CFG_patch_size_def
      CFG_min_distance_def demo_extract)
  apply (simp add: demo_lib_def take_keys_def demo_xy_def CFG_max_distance_def
      upt_rec[of _ "numeral _"] upt_rec[of _ "Suc _"] eval_nat_numeral)
  done

lemma demo_fit:
  "ransac (demo_lib m) (demo_xy, demo_xy) CFG_min_samples CFG_residual_threshold CFG_max_trials
   = Inr (Some m, Some (replicate 12 True))"
  by (simp add: demo_lib_def demo_ransac_def demo_xy_def CFG_min_samples_def eval_nat_numeral)

subsection \<open>Validation of the fitted model\<close>

lemma fl_bad_not_between:
  "(case x of Fin v \<Rightarrow> v \<le> lo \<or> hi \<le> v | _ \<Rightarrow> True)
   \<Longrightarrow> isnan x \<or> \<not> fl_gt x lo \<or> \<not> fl_lt x hi"
  by (cases x) auto

lemma transformation_valid_entry:
  assumes "transformation_valid m" "i < 3" "j < 3"
  shows "\<not> isnan (entry m i j)
         \<and> fl_gt (entry m i j) (entry (fst CFG_model_robust_param_limits) i j)
         \<and> fl_lt (entry m i j) (entry (snd CFG_model_robust_param_limits) i j)"
proof -
  obtain a b c d e f g h k where m: "m = ((a, b, c), (d, e, f), (g, h, k))"
    by (metis prod_cases3)
  from assms(2) have i: "i = 0 \<or> i = 1 \<or> i = 2" by auto
  from assms(3) have j: "j = 0 \<or> j = 1 \<or> j = 2" by auto
  from assms(1) have v: "\<not> isnan a" "\<not> isnan b" "\<not> isnan c" "\<not> isnan d" "\<not> isnan e"
      "\<not> isnan f" "\<not> isnan g" "\<not> isnan h" "\<not> isnan k"
    "fl_gt a (- 10)" "fl_gt b (- 1)" "fl_gt c (- 100)"
    "fl_gt d (- 1)" "fl_gt e (- 2)" "fl_gt f (- 100)"
    "fl_gt g (- 0.1)" "fl_gt h (- 0.02)" "fl_gt k 0"
    "fl_lt a 10" "fl_lt b 1" "fl_lt c 100" "fl_lt d 1" "fl_lt e 2" "fl_lt f 100"
    "fl_lt g 0.1" "fl_lt h 0.02" "fl_lt k 2"
    by (simp_all add: transformation_valid_def m CFG_model_robust_param_limits_def
        split: if_splits)
  show ?thesis using i j v
    by (auto simp: entry_def m CFG_model_robust_param_limits_def)
qed

text \<open>
  C2. Let the robust fit return a model one of whose entries is not finite (infinite or
  not a number), or finite and not strictly between its two limits. Then the model fails
  \<^verbatim>\<open>transformation_valid\<close>, and \<^verbatim>\<open>warp_images\<close> raises
  \<^verbatim>\<open>ValueError("Transformation failed, not enough similar features?")\<close> instead of
  returning warped images.
\<close>

theorem degenerate_model_fails:
  assumes "i < 3" and "j < 3"
    and "case entry m i j of
           Fin x \<Rightarrow> x \<le> entry (fst CFG_model_robust_param_limits) i j
                   \<or> entry (snd CFG_model_robust_param_limits) i j \<le> x
         | _ \<Rightarrow> True"
    and "warp_images_select vis irr = Inr images"
    and "warp_images_gray L images = Inr images_gray"
    and "warp_images_keys L images_gray = Inr keys"
    and "ransac L keys CFG_min_samples CFG_residual_threshold CFG_max_trials
         = Inr (Some m, inliers)"
  shows "\<not> transformation_valid m
         \<and> warp_images L vis irr
           = Inl (ValueError ''Transformation failed, not enough similar features?'')"
proof -
  have nv: "\<not> transformation_valid m"
    using transformation_valid_entry[of m i j] fl_bad_not_between[OF assms(3)] assms(1,2)
    by blast
  then have "warp_images_model L keys
             = Inl (ValueError ''Transformation failed, not enough similar features?'')"
    using assms(7) by (simp add: warp_images_model_def)
  then show ?thesis using nv assms(4,5,6) by (simp add: warp_images_def)
qed

text \<open>
  The theorem on the example run, the fit returning the model with entry \<open>[2][0] = 5\<close>
  where the limit is 0.1.
\<close>

theorem degenerate_model_fails_witness:
  "entry perspective_model 2 0 = Fin 5
   \<and> entry (snd CFG_model_robust_param_limits) 2 0 = 0.1
   \<and> \<not> transformation_valid perspective_model
   \<and> warp_images (demo_lib perspective_model) demo_vis demo_irr
     = Inl (ValueError ''Transformation failed, not enough similar features?'')"
proof -
  have e: "entry perspective_model 2 0 = Fin 5"
    by (simp add: entry_def perspective_model_def)
  have b: "entry (snd CFG_model_robust_param_limits) 2 0 = 0.1"
    by (simp add: entry_def CFG_model_robust_param_limits_def)
  have bad: "case entry perspective_model 2 0 of
           Fin x \<Rightarrow> x \<le> entry (fst CFG_model_robust_param_limits) 2 0
                   \<or> entry (snd CFG_model_robust_param_limits) 2 0 \<le> x
         | _ \<Rightarrow> True"
    by (simp add: e b)
  show ?thesis
    using degenerate_model_fails[OF _ _ bad demo_select demo_gray demo_keys demo_fit] e b
    by simp
qed

subsection \<open>Feature extraction\<close>

lemma collect_Inr: "collect xs = Inr ys \<Longrightarrow> xs = map Inr ys"
  by (induction xs arbitrary: ys) (auto split: sum.splits)

lemma length_mask_kept:
  "length flags = length xs \<Longrightarrow>
     length (map fst (filter snd (zip xs flags))) = length (filter id flags)"
  by (induction xs flags rule: list_induct2') auto

text \<open>
  C8. Whatever \<^verbatim>\<open>extract\<close> returns, it returns as many lists of keypoints as of
  descriptors, and for every image as many keypoints as descriptors, for either method,
  provided the library keeps its own contract: \<^verbatim>\<open>ORB\<close> holds as many keypoints as
  descriptors, and \<^verbatim>\<open>BRIEF\<close> holds one descriptor for every keypoint its mask
  flags. With Harris and BRIEF the keypoints returned are the detected peaks indexed by
  that mask, so a peak without descriptor is dropped together with it.
\<close>

theorem extract_counts_agree:
  assumes ex: "extract_features L images method patch_size min_distance threshold_rel
           = Inr (keypoints, descriptors)"
    and orb: "\<forall>im\<in>set images.
           length (fst (orb_detect_and_extract L 1000 0.02 im))
           = length (snd (orb_detect_and_extract L 1000 0.02 im))"
    and brief: "\<forall>im\<in>set images. \<forall>kps.
           length (snd (brief_extract L patch_size ''uniform'' im kps))
           = length (filter id (fst (brief_extract L patch_size ''uniform'' im kps)))"
  shows "length keypoints = length descriptors
         \<and> (\<forall>i<length keypoints. length (keypoints ! i) = length (descriptors ! i))
         \<and> (method = ''HARRIS'' \<longrightarrow>
              length keypoints = length images
              \<and> (\<forall>i<length images.
                    mask_index
                      (corner_peaks L (corner_harris L (images ! i)) min_distance threshold_rel)
                      (fst (brief_extract L patch_size ''uniform'' (images ! i)
                             (corner_peaks L (corner_harris L (images ! i)) min_distance
                                threshold_rel)))
                    = Inr (keypoints ! i)
                    \<and> descriptors ! i
                      = snd (brief_extract L patch_size ''uniform'' (images ! i)
                               (corner_peaks L (corner_harris L (images ! i)) min_distance
                                  threshold_rel))))"
proof (cases "method = ''ORB''")
  case True
  with ex have k: "keypoints = map (\<lambda>im. fst (orb_detect_and_extract L 1000 0.02 im)) images"
    and d: "descriptors = map (\<lambda>im. snd (orb_detect_and_extract L 1000 0.02 im)) images"
    by (simp_all add: extract_features_def)
  show ?thesis using orb True by (simp add: k d)
next
  case notorb: False
  show ?thesis
  proof (cases "method = ''HARRIS''")
    case False
    with notorb ex show ?thesis by (simp add: extract_features_def)
  next
    case True
    define peaks where "peaks im = corner_peaks L (corner_harris L im) min_distance threshold_rel" for im
    define br where "br im = brief_extract L patch_size ''uniform'' im (peaks im)" for im
    define step where "step im = (case mask_index (peaks im) (fst (br im)) of
                         Inl e \<Rightarrow> Inl e | Inr kept \<Rightarrow> Inr (kept, snd (br im)))" for im
    have "extract_features L images method patch_size min_distance threshold_rel
          = (case collect (map step images) of
               Inl e \<Rightarrow> Inl e | Inr found \<Rightarrow> Inr (map fst found, map snd found))"
      unfolding extract_features_def Let_def step_def br_def peaks_def
      using True notorb by simp
    with ex obtain found where
      c: "collect (map step images) = Inr found"
      and k: "keypoints = map fst found" and d: "descriptors = map snd found"
      by (auto split: sum.splits)
    from collect_Inr[OF c] have m: "map step images = map Inr found" .
    then have len: "length found = length images" by (metis length_map)
    have each: "step (images ! i) = Inr (found ! i)" if "i < length images" for i
      using m that len by (metis nth_map)
    have pt: "mask_index (peaks (images ! i)) (fst (br (images ! i))) = Inr (fst (found ! i))
              \<and> snd (found ! i) = snd (br (images ! i))
              \<and> length (fst (found ! i)) = length (snd (found ! i))"
      if i: "i < length images" for i
    proof -
      from each[OF i] obtain kept where
        mi: "mask_index (peaks (images ! i)) (fst (br (images ! i))) = Inr kept"
        and f: "found ! i = (kept, snd (br (images ! i)))"
        by (auto simp: step_def split: sum.splits)
      from mi have lf: "length (fst (br (images ! i))) = length (peaks (images ! i))"
        and kept: "kept = map fst (filter snd (zip (peaks (images ! i)) (fst (br (images ! i)))))"
        by (auto simp: mask_index_def split: if_splits)
      have "length kept = length (filter id (fst (br (images ! i))))"
        unfolding kept by (rule length_mask_kept[OF lf])
      also have "\<dots> = length (snd (br (images ! i)))"
        using brief i by (simp add: br_def)
      finally show ?thesis using mi f by simp
    qed
    show ?thesis using pt len True
      by (simp add: k d peaks_def br_def)
  qed
qed

lemma demo_brief_contract:
  "length (snd (demo_brief p md im kps)) = length (filter id (fst (demo_brief p md im kps)))"
  by (simp add: demo_brief_def Let_def filter_map comp_def)

text \<open>
  The theorem on the example: fourteen peaks, twelve of them kept with their twelve
  descriptors, in both images.
\<close>

theorem extract_counts_agree_witness:
  "extract_features (demo_lib identity_model) [demo_grey, demo_grey] ''HARRIS'' 59 1 (1 / 10 ^ 7)
   = Inr ([map prod.swap demo_xy, map prod.swap demo_xy],
          [replicate 12 [True], replicate 12 [True]])
   \<and> length (map prod.swap demo_xy) = length (replicate 12 [True :: bool])
   \<and> length demo_peaks = 14"
proof -
  have orb: "\<forall>im\<in>set [demo_grey, demo_grey].
           length (fst (orb_detect_and_extract (demo_lib identity_model) 1000 0.02 im))
           = length (snd (orb_detect_and_extract (demo_lib identity_model) 1000 0.02 im))"
    by (simp add: demo_lib_def)
  have brief: "\<forall>im\<in>set [demo_grey, demo_grey]. \<forall>kps.
           length (snd (brief_extract (demo_lib identity_model) 59 ''uniform'' im kps))
           = length (filter id (fst (brief_extract (demo_lib identity_model) 59 ''uniform'' im kps)))"
    by (simp add: demo_lib_def demo_brief_contract)
  from extract_counts_agree[OF demo_extract orb brief]
  show ?thesis using demo_extract[of identity_model "1 / 10 ^ 7"]
    by (simp add: demo_peaks_def demo_xy_def)
qed

subsection \<open>Compositing\<close>

lemma rect2_row: "rect2 g h w \<Longrightarrow> r < h \<Longrightarrow> length (g ! r) = w"
  by (simp add: rect2_def list_all_length)

lemma rect2_lengths: "rect2 g h w \<Longrightarrow> map length g = replicate h w"
  by (auto simp: rect2_def list_all_length intro!: nth_equalityI)

lemma rect3_row: "rect3 a h w d \<Longrightarrow> r < h \<Longrightarrow> length (a ! r) = w"
  by (simp add: rect3_def list_all_length)

lemma rect3_pixel: "rect3 a h w d \<Longrightarrow> r < h \<Longrightarrow> c < w \<Longrightarrow> length (a ! r ! c) = d"
  by (simp add: rect3_def list_all_length)

lemma rect3_I:
  "length a = h \<Longrightarrow> (\<And>r. r < h \<Longrightarrow> length (a ! r) = w)
   \<Longrightarrow> (\<And>r c. r < h \<Longrightarrow> c < w \<Longrightarrow> length (a ! r ! c) = d) \<Longrightarrow> rect3 a h w d"
  by (simp add: rect3_def list_all_length)

lemma rect3_ext:
  assumes a: "rect3 a h w d" and b: "rect3 b h w d"
    and eq: "\<And>r c k. r < h \<Longrightarrow> c < w \<Longrightarrow> k < d \<Longrightarrow> a ! r ! c ! k = b ! r ! c ! k"
  shows "a = b"
proof (rule nth_equalityI)
  show "length a = length b" using a b by (simp add: rect3_def)
next
  fix r assume "r < length a"
  then have r: "r < h" using a by (simp add: rect3_def)
  show "a ! r = b ! r"
  proof (rule nth_equalityI)
    show "length (a ! r) = length (b ! r)" using rect3_row[OF a r] rect3_row[OF b r] by simp
  next
    fix c assume "c < length (a ! r)"
    then have c: "c < w" using rect3_row[OF a r] by simp
    show "a ! r ! c = b ! r ! c"
    proof (rule nth_equalityI)
      show "length (a ! r ! c) = length (b ! r ! c)"
        using rect3_pixel[OF a r c] rect3_pixel[OF b r c] by simp
    next
      fix k assume "k < length (a ! r ! c)"
      then have "k < d" using rect3_pixel[OF a r c] by simp
      then show "a ! r ! c ! k = b ! r ! c ! k" using eq r c by simp
    qed
  qed
qed

lemma rect2_channel:
  "rect3 a h w d \<Longrightarrow> k < d \<Longrightarrow>
     channel (Arr3 a) k = Inr (map (map (\<lambda>p. p ! k)) a) \<and> rect2 (map (map (\<lambda>p. p ! k)) a) h w"
  by (auto simp: rect3_def rect2_def list_all_iff)

lemma rgb2gray_rect:
  "rect3 c h w 3 \<Longrightarrow>
     rgb2gray c = Inr (map (map (\<lambda>p. 0.2125 * p ! 0 + 0.7154 * p ! 1 + 0.0721 * p ! 2)) c)
     \<and> rect2 (map (map (\<lambda>p. 0.2125 * p ! 0 + 0.7154 * p ! 1 + 0.0721 * p ! 2)) c) h w"
  by (auto simp: rect3_def rect2_def rgb2gray_def list_all_iff)

lemma to_gray_rect:
  "on_canvas irr h w \<Longrightarrow> \<exists>g. to_gray irr = Inr g \<and> rect2 g h w"
  by (cases irr) (auto dest: rgb2gray_rect)

lemma dstack3_rect:
  assumes a: "rect2 a h w" and b: "rect2 b h w" and c: "rect2 c h w"
  shows "\<exists>im. dstack3 a b c = Inr im \<and> rect3 im h w 3
              \<and> (\<forall>r<h. \<forall>k<w. im ! r ! k = [a ! r ! k, b ! r ! k, c ! r ! k])"
proof -
  let ?im = "map (\<lambda>(ra, rb, rc). map (\<lambda>(x, y, z). [x, y, z]) (zip ra (zip rb rc)))
               (zip a (zip b c))"
  have d: "dstack3 a b c = Inr ?im"
    using rect2_lengths[OF a] rect2_lengths[OF b] rect2_lengths[OF c] by (simp add: dstack3_def)
  have la: "length a = h" "length b = h" "length c = h" using a b c by (simp_all add: rect2_def)
  have row: "?im ! r = map (\<lambda>(x, y, z). [x, y, z]) (zip (a ! r) (zip (b ! r) (c ! r)))"
    if "r < h" for r using that la by simp
  have px: "?im ! r ! k = [a ! r ! k, b ! r ! k, c ! r ! k]" if "r < h" "k < w" for r k
    using that row[OF that(1)] rect2_row[OF a that(1)] rect2_row[OF b that(1)]
      rect2_row[OF c that(1)] by simp
  have "rect3 ?im h w 3"
  proof (rule rect3_I)
    show "length ?im = h" using la by simp
    show "length (?im ! r) = w" if "r < h" for r
      using row[OF that] rect2_row[OF a that] rect2_row[OF b that] rect2_row[OF c that] by simp
    show "length (?im ! r ! k) = 3" if "r < h" "k < w" for r k using px[OF that] by simp
  qed
  then show ?thesis using d px by blast
qed

lemma false_image_rect:
  assumes g: "to_gray irr = Inr g" and rg: "rect2 g h w" and v: "rect3 v h w 3"
  shows "\<exists>im. false_image (Arr3 v) irr = Inr (Arr3 im) \<and> rect3 im h w 3
              \<and> (\<forall>r<h. \<forall>c<w. im ! r ! c = [g ! r ! c, v ! r ! c ! 0, v ! r ! c ! 1])"
proof -
  have c0: "channel (Arr3 v) 0 = Inr (map (map (\<lambda>p. p ! 0)) v)"
    and r0: "rect2 (map (map (\<lambda>p. p ! 0)) v) h w"
    using rect2_channel[OF v, of 0] by simp_all
  have c1: "channel (Arr3 v) 1 = Inr (map (map (\<lambda>p. p ! 1)) v)"
    and r1: "rect2 (map (map (\<lambda>p. p ! 1)) v) h w"
    using rect2_channel[OF v, of 1] by simp_all
  from dstack3_rect[OF rg r0 r1] obtain im where
    d: "dstack3 g (map (map (\<lambda>p. p ! 0)) v) (map (map (\<lambda>p. p ! 1)) v) = Inr im"
    and rim: "rect3 im h w 3"
    and px: "\<forall>r<h. \<forall>k<w. im ! r ! k
               = [g ! r ! k, map (map (\<lambda>p. p ! 0)) v ! r ! k, map (map (\<lambda>p. p ! 1)) v ! r ! k]"
    by blast
  have lv: "length v = h" using v by (simp add: rect3_def)
  have "im ! r ! k = [g ! r ! k, v ! r ! k ! 0, v ! r ! k ! 1]" if "r < h" "k < w" for r k
    using px that lv rect3_row[OF v that(1)] by simp
  moreover have "false_image (Arr3 v) irr = Inr (Arr3 im)"
    unfolding false_image_def using g c0 c1 d by simp
  ultimately show ?thesis using rim by blast
qed

text \<open>
  C4. For a visible image of three channels and an infrared image, grey or of three
  channels, on the same canvas, \<^verbatim>\<open>false_image\<close> returns an image of exactly three
  channels on that canvas whose pixel is (infrared, visible red, visible green), the
  infrared value being the sample of a grey image and the luma of a multi-channel one.
  The visible blue channel does not reach the output: any other visible image with the
  same red and green channels gives the same result.
\<close>

theorem false_image_channels:
  assumes vis: "rect3 vis h w 3" and irr: "on_canvas irr h w"
  shows "\<exists>g im. to_gray irr = Inr g
           \<and> (case irr of
                 Arr2 g0 \<Rightarrow> g = g0
               | Arr3 c \<Rightarrow> g = map (map (\<lambda>p. 0.2125 * p ! 0 + 0.7154 * p ! 1 + 0.0721 * p ! 2)) c)
           \<and> false_image (Arr3 vis) irr = Inr (Arr3 im)
           \<and> rect3 im h w 3
           \<and> (\<forall>r<h. \<forall>c<w. im ! r ! c = [g ! r ! c, vis ! r ! c ! 0, vis ! r ! c ! 1])
           \<and> (\<forall>vis'. rect3 vis' h w 3
                      \<and> (\<forall>r<h. \<forall>c<w. vis' ! r ! c ! 0 = vis ! r ! c ! 0
                                        \<and> vis' ! r ! c ! 1 = vis ! r ! c ! 1)
                  \<longrightarrow> false_image (Arr3 vis') irr = Inr (Arr3 im))"
proof -
  from to_gray_rect[OF irr] obtain g where g: "to_gray irr = Inr g" and rg: "rect2 g h w"
    by blast
  have gc: "case irr of
              Arr2 g0 \<Rightarrow> g = g0
            | Arr3 c \<Rightarrow> g = map (map (\<lambda>p. 0.2125 * p ! 0 + 0.7154 * p ! 1 + 0.0721 * p ! 2)) c"
    using g irr by (cases irr) (auto dest: rgb2gray_rect)
  note run = false_image_rect[OF g rg]
  from run[OF vis] obtain im where
    f: "false_image (Arr3 vis) irr = Inr (Arr3 im)" and rim: "rect3 im h w 3"
    and px: "\<forall>r<h. \<forall>c<w. im ! r ! c = [g ! r ! c, vis ! r ! c ! 0, vis ! r ! c ! 1]"
    by blast
  have blue: "false_image (Arr3 vis') irr = Inr (Arr3 im)"
    if v': "rect3 vis' h w 3"
      and same: "\<forall>r<h. \<forall>c<w. vis' ! r ! c ! 0 = vis ! r ! c ! 0 \<and> vis' ! r ! c ! 1 = vis ! r ! c ! 1"
    for vis'
  proof -
    from run[OF v'] obtain im' where
      f': "false_image (Arr3 vis') irr = Inr (Arr3 im')" and rim': "rect3 im' h w 3"
      and px': "\<forall>r<h. \<forall>c<w. im' ! r ! c = [g ! r ! c, vis' ! r ! c ! 0, vis' ! r ! c ! 1]"
      by blast
    have "im' = im"
      by (rule rect3_ext[OF rim' rim]) (use px px' same in simp)
    then show ?thesis using f' by simp
  qed
  show ?thesis using g gc f rim px blue by blast
qed

text \<open>
  The theorem on an image of one row and two columns, and on a second visible image that
  differs from it in the blue channel only.
\<close>

theorem false_image_channels_witness:
  "false_image (Arr3 [[[0.1, 0.2, 0.3], [0.4, 0.5, 0.6]]]) (Arr3 [[[1, 0, 0], [0, 1, 1]]])
     = Inr (Arr3 [[[0.2125, 0.1, 0.2], [0.7875, 0.4, 0.5]]])
   \<and> false_image (Arr3 [[[0.1, 0.2, 0.9], [0.4, 0.5, 0]]]) (Arr3 [[[1, 0, 0], [0, 1, 1]]])
     = Inr (Arr3 [[[0.2125, 0.1, 0.2], [0.7875, 0.4, 0.5]]])"
proof -
  have v: "rect3 [[[0.1, 0.2, 0.3], [0.4, 0.5, 0.6]]] 1 2 3" by (simp add: rect3_def)
  have i: "on_canvas (Arr3 [[[1, 0, 0], [0, 1, 1]]]) 1 2" by (simp add: rect3_def)
  from false_image_channels[OF v i]
  show ?thesis
    by (simp add: false_image_def rgb2gray_def dstack3_def)
qed

lemma shape3_rect:
  "rect3 a h w d \<Longrightarrow>
     shape3 a = (h, if h = 0 then 0 else w, if h = 0 \<or> w = 0 then 0 else d)"
proof -
  assume a: "rect3 a h w d"
  have l: "length a = h" using a by (simp add: rect3_def)
  have r0: "length (hd a) = w" if "h \<noteq> 0"
    using rect3_row[OF a, of 0] that l by (cases a) auto
  have p0: "length (hd (hd a)) = d" if "h \<noteq> 0" "w \<noteq> 0"
    using rect3_pixel[OF a, of 0 0] that l r0 by (cases a; cases "hd a") auto
  show ?thesis using l r0 p0 by (auto simp: shape3_def)
qed

lemma bget_rect:
  "rect3 a h w d \<Longrightarrow> r < h \<Longrightarrow> c < w \<Longrightarrow> k < d \<Longrightarrow> bget a r c k = a ! r ! c ! k"
  by (auto simp: bget_def shape3_rect)

lemma add_arrays_rect:
  assumes a: "rect3 a h w d" and b: "rect3 b h w d"
  shows "\<exists>im. add_arrays a b = Inr im \<and> rect3 im h w d
              \<and> (\<forall>r<h. \<forall>c<w. \<forall>k<d. im ! r ! c ! k = a ! r ! c ! k + b ! r ! c ! k)"
proof -
  let ?h = "h" and ?w = "if h = 0 then 0 else w" and ?d = "if h = 0 \<or> w = 0 then 0 else d"
  let ?im = "map (\<lambda>r. map (\<lambda>c. map (\<lambda>k. bget a r c k + bget b r c k) [0..<?d]) [0..<?w]) [0..<?h]"
  have e: "add_arrays a b = Inr ?im"
    by (simp add: add_arrays_def shape3_rect[OF a] shape3_rect[OF b] bdim_def)
  have px: "?im ! r ! c ! k = a ! r ! c ! k + b ! r ! c ! k" if "r < h" "c < w" "k < d" for r c k
    using that bget_rect[OF a that] bget_rect[OF b that] by auto
  have "rect3 ?im h w d"
    by (rule rect3_I) auto
  then show ?thesis using e px by blast
qed

lemma scale_array_rect:
  "rect3 a h w d \<Longrightarrow> rect3 (scale_array s a) h w d"
  by (auto simp: rect3_def scale_array_def list_all_iff)

lemma scale_array_nth:
  "rect3 a h w d \<Longrightarrow> r < h \<Longrightarrow> c < w \<Longrightarrow> k < d \<Longrightarrow>
     scale_array s a ! r ! c ! k = s * a ! r ! c ! k"
  using rect3_row[of a h w d r] rect3_pixel[of a h w d r c]
  by (simp add: scale_array_def rect3_def)

lemma stack_grey_rect:
  assumes g: "rect2 g h w"
  shows "dstack3 g g g = Inr (map (map (\<lambda>x. [x, x, x])) g)
         \<and> rect3 (map (map (\<lambda>x. [x, x, x])) g) h w 3"
proof -
  from dstack3_rect[OF g g g] obtain im where d: "dstack3 g g g = Inr im"
    and r: "rect3 im h w 3" and px: "\<forall>r<h. \<forall>k<w. im ! r ! k = [g ! r ! k, g ! r ! k, g ! r ! k]"
    by blast
  have lg: "length g = h" using g by (simp add: rect2_def)
  have r': "rect3 (map (map (\<lambda>x. [x, x, x])) g) h w 3"
    using g by (auto simp: rect2_def rect3_def list_all_iff)
  have "im = map (map (\<lambda>x. [x, x, x])) g"
    by (rule rect3_ext[OF r r']) (use px lg rect2_row[OF g] in simp)
  then show ?thesis using d r' by simp
qed

lemma irr3_rect:
  "on_canvas irr h w \<Longrightarrow>
     (case irr of Arr2 g \<Rightarrow> dstack3 g g g | Arr3 c \<Rightarrow> Inr c)
       = Inr (case irr of Arr2 g \<Rightarrow> map (map (\<lambda>x. [x, x, x])) g | Arr3 c \<Rightarrow> c)
     \<and> rect3 (case irr of Arr2 g \<Rightarrow> map (map (\<lambda>x. [x, x, x])) g | Arr3 c \<Rightarrow> c) h w 3"
  by (cases irr) (auto dest: stack_grey_rect)

lemma blend_image_rect:
  assumes vis: "rect3 vis h w 3" and irr: "on_canvas irr h w"
  shows "\<exists>im. blend_image (Arr3 vis) irr weight = Inr (Arr3 im) \<and> rect3 im h w 3
           \<and> (\<forall>r<h. \<forall>c<w. \<forall>k<3. im ! r ! c ! k
                 = (1 - weight) * vis ! r ! c ! k
                   + weight * (case irr of Arr2 g \<Rightarrow> map (map (\<lambda>x. [x, x, x])) g | Arr3 c \<Rightarrow> c)
                       ! r ! c ! k)"
proof -
  let ?irr3 = "case irr of Arr2 g \<Rightarrow> map (map (\<lambda>x. [x, x, x])) g | Arr3 c \<Rightarrow> c"
  from irr3_rect[OF irr] have i3: "(case irr of Arr2 g \<Rightarrow> dstack3 g g g | Arr3 c \<Rightarrow> Inr c) = Inr ?irr3"
    and r3: "rect3 ?irr3 h w 3" by simp_all
  from add_arrays_rect[OF scale_array_rect[OF vis] scale_array_rect[OF r3]]
  obtain im where e: "add_arrays (scale_array (1 - weight) vis) (scale_array weight ?irr3) = Inr im"
    and r: "rect3 im h w 3"
    and px: "\<forall>r<h. \<forall>c<w. \<forall>k<3. im ! r ! c ! k
               = scale_array (1 - weight) vis ! r ! c ! k + scale_array weight ?irr3 ! r ! c ! k"
    by blast
  have "blend_image (Arr3 vis) irr weight = Inr (Arr3 im)"
    unfolding blend_image_def i3 using e by simp
  moreover have "im ! r ! c ! k = (1 - weight) * vis ! r ! c ! k + weight * ?irr3 ! r ! c ! k"
    if "r < h" "c < w" "k < 3" for r c k
    using px that scale_array_nth[OF vis that] scale_array_nth[OF r3 that] by simp
  ultimately show ?thesis using r by blast
qed

text \<open>
  C5. For a visible image of three channels and an infrared image on the same canvas,
  \<^verbatim>\<open>blend_image\<close> with weight 0 returns the visible image itself, and with weight 1
  the infrared image, a grey one replicated to three channels.
\<close>

theorem blend_image_extremes:
  assumes vis: "rect3 vis h w 3" and irr: "on_canvas irr h w"
  shows "blend_image (Arr3 vis) irr 0 = Inr (Arr3 vis)
         \<and> blend_image (Arr3 vis) irr 1
           = Inr (Arr3 (case irr of Arr2 g \<Rightarrow> map (map (\<lambda>x. [x, x, x])) g | Arr3 c \<Rightarrow> c))"
proof -
  let ?irr3 = "case irr of Arr2 g \<Rightarrow> map (map (\<lambda>x. [x, x, x])) g | Arr3 c \<Rightarrow> c"
  from irr3_rect[OF irr] have r3: "rect3 ?irr3 h w 3" by simp
  from blend_image_rect[OF vis irr, of 0] obtain im0 where
    b0: "blend_image (Arr3 vis) irr 0 = Inr (Arr3 im0)" and r0: "rect3 im0 h w 3"
    and p0: "\<forall>r<h. \<forall>c<w. \<forall>k<3. im0 ! r ! c ! k = (1 - 0) * vis ! r ! c ! k + 0 * ?irr3 ! r ! c ! k"
    by blast
  have "im0 = vis" by (rule rect3_ext[OF r0 vis]) (use p0 in simp)
  moreover
  from blend_image_rect[OF vis irr, of 1] obtain im1 where
    b1: "blend_image (Arr3 vis) irr 1 = Inr (Arr3 im1)" and r1: "rect3 im1 h w 3"
    and p1: "\<forall>r<h. \<forall>c<w. \<forall>k<3. im1 ! r ! c ! k = (1 - 1) * vis ! r ! c ! k + 1 * ?irr3 ! r ! c ! k"
    by blast
  have "im1 = ?irr3" by (rule rect3_ext[OF r1 r3]) (use p1 in simp)
  ultimately show ?thesis using b0 b1 by simp
qed

text \<open>The theorem on a visible image of one row and two columns and a grey infrared image.\<close>

theorem blend_image_extremes_witness:
  "blend_image (Arr3 [[[0.1, 0.2, 0.3], [0.4, 0.5, 0.6]]]) (Arr2 [[0.7, 0.8]]) 0
     = Inr (Arr3 [[[0.1, 0.2, 0.3], [0.4, 0.5, 0.6]]])
   \<and> blend_image (Arr3 [[[0.1, 0.2, 0.3], [0.4, 0.5, 0.6]]]) (Arr2 [[0.7, 0.8]]) 1
     = Inr (Arr3 [[[0.7, 0.7, 0.7], [0.8, 0.8, 0.8]]])"
proof -
  have v: "rect3 [[[0.1, 0.2, 0.3], [0.4, 0.5, 0.6]]] 1 2 3" by (simp add: rect3_def)
  have i: "on_canvas (Arr2 [[0.7, 0.8]]) 1 2" by (simp add: rect2_def)
  from blend_image_extremes[OF v i] show ?thesis by simp
qed

subsection \<open>The shared canvas\<close>

lemma det3_mat_mul: "det3 (mat_mul A B) = det3 A * det3 B"
proof -
  obtain a b c d e f g h k where A: "A = ((a, b, c), (d, e, f), (g, h, k))"
    by (metis prod_cases3)
  obtain a' b' c' d' e' f' g' h' k' where B: "B = ((a', b', c'), (d', e', f'), (g', h', k'))"
    by (metis prod_cases3)
  show ?thesis unfolding A B by (simp add: algebra_simps)
qed

lemma det3_translation: "det3 (similarity_translation t) = 1"
  by (simp add: similarity_translation_def)

lemma mat_inv_Inr: "det3 A \<noteq> 0 \<Longrightarrow> \<exists>B. mat_inv A = Inr B"
proof -
  obtain a b c d e f g h k where A: "A = ((a, b, c), (d, e, f), (g, h, k))"
    by (metis prod_cases3)
  assume "det3 A \<noteq> 0"
  then show ?thesis unfolding A by (simp add: Let_def)
qed

lemma mat_inv_Inl: "det3 A = 0 \<Longrightarrow> mat_inv A = Inl LinAlgError"
proof -
  obtain a b c d e f g h k where A: "A = ((a, b, c), (d, e, f), (g, h, k))"
    by (metis prod_cases3)
  assume "det3 A = 0"
  then show ?thesis unfolding A by (simp add: Let_def)
qed





lemma sk_warp_Arr2:
  "\<exists>x. sk_warp (Arr2 g) M (h, w) cval = Arr2 x \<and> rect2 x h w
       \<and> (\<forall>r<h. \<forall>c<w. x ! r ! c
             = sample_at (\<lambda>r c. g ! r ! c) (shape0 (Arr2 g)) (shape1 (Arr2 g)) M r c cval)"
  by (auto simp: rect2_def list_all_iff)

lemma sk_warp_Arr3:
  "\<exists>x. sk_warp (Arr3 a) M (h, w) cval = Arr3 x \<and> rect3 x h w (snd (snd (shape3 a)))
       \<and> (\<forall>r<h. \<forall>c<w. x ! r ! c
             = map (\<lambda>k. sample_at (\<lambda>r c. a ! r ! c ! k) (shape0 (Arr3 a)) (shape1 (Arr3 a))
                          M r c cval)
                 [0..<snd (snd (shape3 a))])"
  by (auto simp: rect3_def list_all_iff)










lemma warp_image_runs:
  assumes det: "det3 model_robust \<noteq> 0" and shp: "output_shape im0 model_robust = (h, w)"
  shows "\<exists>oi fi. mat_inv (offset im0 model_robust) = Inr oi
           \<and> mat_inv (tf_add model_robust (offset im0 model_robust)) = Inr fi
           \<and> warp_image (im0, im1) model_robust
             = Inr (sk_warp im0 oi (h, w) 0, sk_warp im1 fi (h, w) 0)"
proof -
  have "det3 (offset im0 model_robust) \<noteq> 0"
    by (simp add: offset_def det3_translation)
  then obtain oi where oi: "mat_inv (offset im0 model_robust) = Inr oi"
    using mat_inv_Inr by blast
  have "det3 (tf_add model_robust (offset im0 model_robust)) \<noteq> 0"
    using det by (simp add: tf_add_def det3_mat_mul offset_def det3_translation)
  then obtain fi where fi: "mat_inv (tf_add model_robust (offset im0 model_robust)) = Inr fi"
    using mat_inv_Inr by blast
  have "warp_image (im0, im1) model_robust
        = Inr (sk_warp im0 oi (h, w) 0, sk_warp im1 fi (h, w) 0)"
    by (simp add: warp_image_def oi fi shp)
  then show ?thesis using oi fi by blast
qed

lemma warp_image_singular:
  assumes "det3 model_robust = 0"
  shows "warp_image images model_robust = Inl LinAlgError"
proof -
  have "det3 (offset (fst images) model_robust) \<noteq> 0"
    by (simp add: offset_def det3_translation)
  then obtain oi where oi: "mat_inv (offset (fst images) model_robust) = Inr oi"
    using mat_inv_Inr by blast
  have "det3 (tf_add model_robust (offset (fst images) model_robust)) = 0"
    using assms by (simp add: tf_add_def det3_mat_mul)
  then have "mat_inv (tf_add model_robust (offset (fst images) model_robust)) = Inl LinAlgError"
    by (rule mat_inv_Inl)
  then show ?thesis by (simp add: warp_image_def oi)
qed







subsection \<open>Grey reduction before matching\<close>

lemma warp_images_select_Inr:
  assumes "warp_images_select vis irr = Inr images"
  shows "\<exists>v ir0. vis = Arr3 v \<and> images = (vis, Arr2 ir0)
           \<and> (case irr of Arr2 g \<Rightarrow> ir0 = g | Arr3 c \<Rightarrow> ir0 = map (map (\<lambda>p. p ! 0)) c)"
  using assms
  by (cases vis; cases irr) (auto simp: warp_images_select_def split: if_splits)

text \<open>
  C7, as the code has it. In \<^verbatim>\<open>warp_images\<close> the visible image has three dimensions
  and is resized to the working height, then reduced to grey by the luma weighting of
  \<^verbatim>\<open>rgb2gray\<close>. An infrared image of more than two dimensions is reduced to its first
  channel before it is resized, so \<^verbatim>\<open>preprocess_images\<close> receives it with two
  dimensions and applies no luma weighting to it. Both grey images are then normalised
  (the other two filters are off in \<^verbatim>\<open>CFG\<close>).
\<close>

theorem matching_images_gray:
  assumes sel: "warp_images_select vis irr = Inr images"
    and gray: "warp_images_gray L images = Inr images_gray"
  shows "\<exists>v ir0 luma.
           vis = Arr3 v \<and> images = (vis, Arr2 ir0)
         \<and> (case irr of Arr2 g \<Rightarrow> ir0 = g | Arr3 c \<Rightarrow> ir0 = map (map (\<lambda>p. p ! 0)) c)
         \<and> rgb2gray (resize3 L v (500, shape1 vis * 500 div shape0 vis)) = Inr luma
         \<and> images_gray
           = [rescale_intensity L luma,
              rescale_intensity L
                (resize2 L ir0 (500, shape1 (Arr2 ir0) * 500 div shape0 (Arr2 ir0)))]"
proof -
  from warp_images_select_Inr[OF sel] obtain v ir0 where
    v: "vis = Arr3 v" and im: "images = (vis, Arr2 ir0)"
    and ir: "case irr of Arr2 g \<Rightarrow> ir0 = g | Arr3 c \<Rightarrow> ir0 = map (map (\<lambda>p. p ! 0)) c"
    by blast
  let ?sv = "(500, shape1 vis * 500 div shape0 vis)"
  let ?si = "(500, shape1 (Arr2 ir0) * 500 div shape0 (Arr2 ir0))"
  from gray have pre: "preprocess_images L [Arr3 (resize3 L v ?sv), Arr2 (resize2 L ir0 ?si)]
                       = Inr images_gray"
    unfolding warp_images_gray_def resize_images_def im v
    by (simp add: new_height_or_min_def CFG_downsize_def split: if_splits)
  then obtain luma where l: "rgb2gray (resize3 L v ?sv) = Inr luma"
    by (auto simp: preprocess_images_def split: sum.splits)
  from pre l have "images_gray
      = [rescale_intensity L luma, rescale_intensity L (resize2 L ir0 ?si)]"
    by (simp add: preprocess_images_def CFG_normalize_def CFG_equalize_def CFG_edge_def)
  then show ?thesis using v im ir l by blast
qed

text \<open>The theorem on the example images.\<close>

theorem matching_images_gray_witness:
  "warp_images_select demo_vis demo_irr = Inr (demo_vis, Arr2 demo_grey)
   \<and> warp_images_gray (demo_lib identity_model) (demo_vis, Arr2 demo_grey)
     = Inr [demo_grey, demo_grey]"
proof -
  from matching_images_gray[OF demo_select demo_gray[of identity_model]]
  show ?thesis using demo_select demo_gray[of identity_model] by simp
qed

text \<open>
  C7 as the spec words it fails on the example: the infrared image has three channels,
  its first pixel is \<open>[0, 1, 0]\<close>, the grey image handed to the matcher has 0 there
  (the first channel), and the luma weighting would give 0.7154.
\<close>

theorem infrared_luma_counterexample:
  "warp_images_select demo_vis demo_irr = Inr (demo_vis, Arr2 demo_grey)
   \<and> warp_images_gray (demo_lib identity_model) (demo_vis, Arr2 demo_grey)
     = Inr [demo_grey, demo_grey]
   \<and> to_gray demo_irr = Inr (replicate 499 (replicate 60 0.7154) @ [replicate 60 0.2125])
   \<and> demo_grey \<noteq> replicate 499 (replicate 60 0.7154) @ [replicate 60 0.2125]
   \<and> demo_grey ! 0 ! 0 = 0
   \<and> (replicate 499 (replicate 60 0.7154) @ [replicate 60 0.2125]) ! 0 ! 0 = (0.7154 :: real)"
proof -
  have l: "to_gray demo_irr = Inr (replicate 499 (replicate 60 0.7154) @ [replicate 60 0.2125])"
    by (simp add: demo_irr_def rgb2gray_def list_all_iff)
  have n: "demo_grey \<noteq> replicate 499 (replicate 60 0.7154) @ [replicate 60 0.2125]"
    by (simp add: demo_grey_def)
  have p: "demo_grey ! 0 ! 0 = 0"
    "(replicate 499 (replicate 60 0.7154) @ [replicate 60 0.2125]) ! 0 ! 0 = (0.7154 :: real)"
    by (simp_all add: demo_grey_def nth_append)
  show ?thesis using demo_select demo_gray[of identity_model] l n p by simp
qed


subsection \<open>The warped infrared image\<close>

lemma sk_warp_grey: "\<exists>x. sk_warp (Arr2 g) M shp cval = Arr2 x"
  by (cases shp) simp

lemma warp_image_snd_grey:
  assumes "warp_image (im0, Arr2 g) M = Inr (w0, w1)"
  shows "\<exists>x. w1 = Arr2 x"
proof -
  from assms obtain fi where "w1 = sk_warp (Arr2 g) fi (output_shape im0 M) 0"
    by (auto simp: warp_image_def Let_def split: sum.splits)
  then show ?thesis using sk_warp_grey by simp
qed

lemma warp_images_Inr:
  assumes "warp_images L vis irr = Inr (v, i)"
  shows "\<exists>g ir0. i = Arr2 g \<and> warp_images_select vis irr = Inr (vis, Arr2 ir0)
           \<and> (case irr of Arr2 g0 \<Rightarrow> ir0 = g0 | Arr3 c \<Rightarrow> ir0 = map (map (\<lambda>p. p ! 0)) c)"
proof -
  from assms obtain images m where sel: "warp_images_select vis irr = Inr images"
    and ap: "warp_images_apply images m = Inr (v, i)"
    by (auto simp: warp_images_def split: sum.splits)
  from warp_images_select_Inr[OF sel] obtain ir0 where
    im: "images = (vis, Arr2 ir0)"
    and ir: "case irr of Arr2 g0 \<Rightarrow> ir0 = g0 | Arr3 c \<Rightarrow> ir0 = map (map (\<lambda>p. p ! 0)) c"
    by blast
  from ap obtain M where "warp_image (vis, Arr2 ir0) M = Inr (v, i)"
    unfolding warp_images_apply_def im by (auto simp: Let_def split: if_splits)
  from warp_image_snd_grey[OF this] obtain g where "i = Arr2 g" by blast
  then show ?thesis using sel im ir by blast
qed

text \<open>
  C10. Whenever \<^verbatim>\<open>warp_images\<close> returns, the infrared image it returns has two
  dimensions: the image it warps is the infrared input itself when that is grey, and its
  first channel otherwise. So whenever \<^verbatim>\<open>process_pair\<close> returns, \<^verbatim>\<open>blend_image\<close>
  and \<^verbatim>\<open>false_image\<close> were given a grey infrared image.
\<close>

theorem warped_infrared_is_grey:
  "(warp_images L vis irr = Inr (v, i) \<longrightarrow>
      (\<exists>g ir0. i = Arr2 g \<and> warp_images_select vis irr = Inr (vis, Arr2 ir0)
         \<and> (case irr of Arr2 g0 \<Rightarrow> ir0 = g0 | Arr3 c \<Rightarrow> ir0 = map (map (\<lambda>p. p ! 0)) c)))
   \<and> (process_pair L vi_image ir_image = Inr (v', i', b, f) \<longrightarrow>
      (\<exists>g. i' = Arr2 g \<and> blend_image v' (Arr2 g) 0.5 = Inr b
         \<and> false_image v' (Arr2 g) = Inr f))"
proof (intro conjI impI)
  assume "warp_images L vis irr = Inr (v, i)"
  from warp_images_Inr[OF this]
  show "\<exists>g ir0. i = Arr2 g \<and> warp_images_select vis irr = Inr (vis, Arr2 ir0)
         \<and> (case irr of Arr2 g0 \<Rightarrow> ir0 = g0 | Arr3 c \<Rightarrow> ir0 = map (map (\<lambda>p. p ! 0)) c)" .
next
  assume pp: "process_pair L vi_image ir_image = Inr (v', i', b, f)"
  then obtain resized where
    w: "warp_images L (resized ! 0) (resized ! 1) = Inr (v', i')"
    and bl: "blend_image v' i' 0.5 = Inr b" and fa: "false_image v' i' = Inr f"
    by (auto simp: process_pair_def split: sum.splits prod.splits)
  from warp_images_Inr[OF w] obtain g where "i' = Arr2 g" by blast
  then show "\<exists>g. i' = Arr2 g \<and> blend_image v' (Arr2 g) 0.5 = Inr b
         \<and> false_image v' (Arr2 g) = Inr f"
    using bl fa by simp
qed

text \<open>The example run to its end: the model fitted is the identity.\<close>

lemma array_size_rect2: "rect2 g h w \<Longrightarrow> array_size (Arr2 g) = h * w"
  by (simp add: rect2_lengths sum_list_replicate)

lemma array_size_rect3:
  assumes "rect3 a h w d"
  shows "array_size (Arr3 a) = h * (w * d)"
proof -
  have row: "sum_list (map length row) = w * d" if "row \<in> set a" for row
  proof -
    from assms that have "length row = w" and "\<forall>p\<in>set row. length p = d"
      by (auto simp: rect3_def list_all_iff)
    then have "map length row = replicate w d"
      by (auto intro!: nth_equalityI)
    then show ?thesis by (simp add: sum_list_replicate)
  qed
  have "map (\<lambda>row. sum_list (map length row)) a = replicate h (w * d)"
    using assms row by (auto simp: rect3_def intro!: nth_equalityI)
  then show ?thesis by (simp add: sum_list_replicate)
qed

lemma demo_valid: "transformation_valid identity_model"
  by (simp add: transformation_valid_def identity_model_def CFG_model_robust_param_limits_def)

lemma demo_model:
  "warp_images_model (demo_lib identity_model) (demo_xy, demo_xy) = Inr identity_model"
  by (simp add: warp_images_model_def demo_fit demo_valid)

lemma demo_full_tf:
  "tf_add (tf_add (similarity_scale 1) (mat_map fl_val identity_model)) (similarity_scale 1)
   = ((1, 0, 0), (0, 1, 0), (0, 0, 1))"
  by (simp add: tf_add_def similarity_scale_def identity_model_def)

lemma demo_corners:
  "all_corners demo_vis ((1, 0, 0), (0, 1, 0), (0, 0, 1))
   = [(0, 0), (0, 500), (60, 0), (60, 500), (0, 0), (0, 500), (60, 0), (60, 500)]"
  by (simp add: all_corners_def corners_def demo_vis_def)

lemma demo_shape: "output_shape demo_vis ((1, 0, 0), (0, 1, 0), (0, 0, 1)) = (500, 60)"
  by (simp add: output_shape_def corner_min_def corner_max_def demo_corners)

lemma demo_apply:
  "\<exists>x0 x1. warp_images_apply (demo_vis, Arr2 demo_grey) identity_model = Inr (Arr3 x0, Arr2 x1)
           \<and> rect3 x0 500 60 3 \<and> rect2 x1 500 60"
proof -
  let ?I = "((1, 0, 0), (0, 1, 0), (0, 0, 1)) :: real mat3"
  have d: "det3 ?I \<noteq> 0" by simp
  from warp_image_runs[OF d demo_shape, of "Arr2 demo_grey"] obtain oi fi where
    run0: "warp_image (demo_vis, Arr2 demo_grey) ?I
           = Inr (sk_warp demo_vis oi (500, 60) 0, sk_warp (Arr2 demo_grey) fi (500, 60) 0)"
    by blast
  define w0 where "w0 = sk_warp demo_vis oi (500, 60) 0"
  define w1 where "w1 = sk_warp (Arr2 demo_grey) fi (500, 60) 0"
  note w0 = w0_def and w1 = w1_def
  have run: "warp_image (demo_vis, Arr2 demo_grey) ?I = Inr (w0, w1)"
    unfolding w0 w1 by (rule run0)
  have s3: "snd (snd (shape3 (replicate 499 (replicate 60 [0, 0, 0]) @ [replicate 60 [1, 1, 1]])))
            = 3"
    by (simp add: shape3_def)
  from sk_warp_Arr3[of "replicate 499 (replicate 60 [0, 0, 0]) @ [replicate 60 [1, 1, 1]]"
      oi 500 60 0]
  obtain x0 where x0: "w0 = Arr3 x0" "rect3 x0 500 60 3"
    unfolding w0 demo_vis_def s3 by blast
  from sk_warp_Arr2[of demo_grey fi 500 60 0]
  obtain x1 where x1: "w1 = Arr2 x1" "rect2 x1 500 60"
    unfolding w1 by blast
  have "warp_images_apply (demo_vis, Arr2 demo_grey) identity_model
        = warp_image (demo_vis, Arr2 demo_grey) ?I"
    unfolding warp_images_apply_def
    by (simp add: CFG_downsize_def demo_full_tf demo_vis_def del: mat_map.simps)
  then show ?thesis using run x0 x1 by simp
qed

lemma demo_warp_images:
  "\<exists>x0 x1. warp_images (demo_lib identity_model) demo_vis demo_irr = Inr (Arr3 x0, Arr2 x1)
           \<and> rect3 x0 500 60 3 \<and> rect2 x1 500 60"
  using demo_apply
  by (simp add: warp_images_def demo_select demo_gray demo_keys demo_model)

lemma demo_resize:
  "resize_images (sk_resize (demo_lib identity_model)) [demo_vis, demo_irr] None
   = Inr [demo_vis, demo_irr]"
  by (simp add: resize_images_def new_height_or_min_def demo_vis_def demo_irr_def demo_lib_def)

lemma demo_process_pair:
  "\<exists>x0 x1 b f. process_pair (demo_lib identity_model) demo_vis demo_irr
                 = Inr (Arr3 x0, Arr2 x1, b, f)"
proof -
  from demo_warp_images obtain x0 x1 where
    w: "warp_images (demo_lib identity_model) demo_vis demo_irr = Inr (Arr3 x0, Arr2 x1)"
    and r0: "rect3 x0 500 60 3" and r1: "rect2 x1 500 60"
    by blast
  have c1: "on_canvas (Arr2 x1) 500 60" using r1 by simp
  have i1: "info (Arr2 x1) = Inr ()"
    using array_size_rect2[OF r1] by (simp add: info_def del: array_size.simps)
  from blend_image_rect[OF r0 c1, of "1 / 2"] obtain bm where
    b: "blend_image (Arr3 x0) (Arr2 x1) (1 / 2) = Inr (Arr3 bm)" and rb: "rect3 bm 500 60 3"
    by blast
  have i2: "info (Arr3 bm) = Inr ()"
    using array_size_rect3[OF rb] by (simp add: info_def del: array_size.simps)
  have "to_gray (Arr2 x1) = Inr x1" by simp
  from false_image_rect[OF this r1 r0] obtain fm where
    f: "false_image (Arr3 x0) (Arr2 x1) = Inr (Arr3 fm)" and rf: "rect3 fm 500 60 3"
    by blast
  have i3: "info (Arr3 fm) = Inr ()"
    using array_size_rect3[OF rf] by (simp add: info_def del: array_size.simps)
  have "process_pair (demo_lib identity_model) demo_vis demo_irr
        = Inr (Arr3 x0, Arr2 x1, Arr3 bm, Arr3 fm)"
    by (simp add: process_pair_def demo_resize w i1 b i2 f i3)
  then show ?thesis by blast
qed

text \<open>
  The theorem on the example: both \<^verbatim>\<open>warp_images\<close> and \<^verbatim>\<open>process_pair\<close> return,
  with a grey infrared image, from an infrared input of three channels.
\<close>

theorem warped_infrared_is_grey_witness:
  "\<exists>v g b f. warp_images (demo_lib identity_model) demo_vis demo_irr = Inr (v, Arr2 g)
             \<and> warp_images_select demo_vis demo_irr = Inr (demo_vis, Arr2 demo_grey)
             \<and> process_pair (demo_lib identity_model) demo_vis demo_irr = Inr (v, Arr2 g, b, f)
             \<and> blend_image v (Arr2 g) 0.5 = Inr b
             \<and> false_image v (Arr2 g) = Inr f"
proof -
  from demo_process_pair obtain x0 x1 b f where
    pp: "process_pair (demo_lib identity_model) demo_vis demo_irr = Inr (Arr3 x0, Arr2 x1, b, f)"
    by blast
  then have w: "warp_images (demo_lib identity_model) demo_vis demo_irr = Inr (Arr3 x0, Arr2 x1)"
    by (auto simp: process_pair_def demo_resize split: sum.splits prod.splits)
  from warped_infrared_is_grey[of "demo_lib identity_model" demo_vis demo_irr "Arr3 x0" "Arr2 x1"
      demo_vis demo_irr "Arr3 x0" "Arr2 x1" b f] w pp
  have "blend_image (Arr3 x0) (Arr2 x1) 0.5 = Inr b \<and> false_image (Arr3 x0) (Arr2 x1) = Inr f"
    by simp
  then show ?thesis using w pp demo_select by blast
qed

end
